theory Spec2Isabelle
  imports Complex_Main
begin

section \<open>The free-look camera controller (samples/05-Models/src/CameraController.cpp)\<close>

text \<open>
  The controller does per-frame arithmetic on C++ \<open>float\<close> values. The source is
  embedded twice.

  The first embedding reads every \<open>float\<close> and \<open>double\<close> as an exact real number:
  \<open>+\<close>, \<open>-\<close>, \<open>*\<close> and the comparisons are those of \<^typ>\<open>real\<close>, \<open>std::fabsf\<close> is the
  absolute value and \<open>std::powf\<close> with a positive base is \<^const>\<open>powr\<close>. It carries the
  statements about which formula, branch, order and field the code uses; these read
  the same over rounded arithmetic.

  The second embedding (names ending in \<open>32\<close>) is the same code over IEEE binary32
  values: finite numbers rounded to nearest, ties to even, with overflow to the
  infinities, and NaN. It carries the statements whose truth depends on rounding,
  overflow or NaN: the range of the pitch and the bounds of the smoothing filter.
\<close>

subsection \<open>Linear interpolation and the smoothing filter (lines 9-30)\<close>

definition Lerp :: "real \<Rightarrow> real \<Rightarrow> real \<Rightarrow> real" where
  "Lerp x0 x1 a = x0 + a * (x1 - x0)"

definition fabsf :: "real \<Rightarrow> real" where
  "fabsf x = \<bar>x\<bar>"

definition powf :: "real \<Rightarrow> real \<Rightarrow> real" where
  "powf b y = b powr y"

text \<open>
  \<open>Smooth\<close> takes both \<open>x0\<close> and \<open>x1\<close> by reference and overwrites both; the model
  returns the pair of their new contents, \<open>x0\<close> first.
\<close>

definition Smooth :: "real \<Rightarrow> real \<Rightarrow> real \<Rightarrow> real \<times> real" where
  "Smooth x0 x1 deltaTime =
     (let x = (if fabsf x0 < fabsf x1
               then Lerp x1 x0 (powf 0.6 (deltaTime * 60))
               else Lerp x1 x0 (powf 0.8 (deltaTime * 60)))
      in (x, x))"

subsection \<open>The collaborators: input maps, the camera, DirectXMath\<close>

text \<open>
  The logical user buttons of the controller. One \<open>InputMap\<close> value is what an input
  context answers during one frame: \<open>GetFloat\<close>, \<open>GetBool\<close> and \<open>GetFloatDelta\<close> per
  button. A \<open>frame\<close> is everything one call of \<open>Update\<close> reads from outside: the two
  input contexts of the controller and the \<open>DeltaTime\<close> of the event.
\<close>

datatype UserButton = MoveX | MoveY | MoveZ | Pitch | Yaw | Boost | LMB | RMB

record InputMap =
  GetFloat :: "UserButton \<Rightarrow> real"
  GetBool :: "UserButton \<Rightarrow> bool"
  GetFloatDelta :: "UserButton \<Rightarrow> real"

record frame =
  m_KMInput :: InputMap
  m_PadInput :: InputMap
  DeltaTime :: real

type_synonym XMVECTOR = "real \<times> real \<times> real \<times> real"

text \<open>
  Modelled from the spec: class \<open>Camera\<close> (Camera.h) is not part of the source at hand.
  The spec says it "holds absolute translation (3D point) and absolute rotation (unit
  quaternion); exposes an incremental-translate operation and an absolute-rotation
  setter". The two setters store their argument. What the incremental translate does
  to the camera is left open: it is the parameter \<open>Camera_Translate\<close> below.
\<close>

record Camera =
  Rotation :: XMVECTOR
  Translation :: XMVECTOR

definition set_Rotation :: "XMVECTOR \<Rightarrow> Camera \<Rightarrow> Camera" where
  "set_Rotation rotation camera = camera\<lparr>Rotation := rotation\<rparr>"

definition set_Translation :: "XMVECTOR \<Rightarrow> Camera \<Rightarrow> Camera" where
  "set_Translation translation camera = camera\<lparr>Translation := translation\<rparr>"

text \<open>
  Modelled from the spec: \<open>XMConvertToRadians\<close> belongs to DirectXMath; the spec
  describes its use as "in degrees converted to radians".
\<close>

definition XMConvertToRadians :: "real \<Rightarrow> real" where
  "XMConvertToRadians fDegrees = fDegrees * (pi / 180)"

text \<open>
  The remaining library calls are parameters of the model: the quaternion of
  (pitch, yaw, roll) and the camera's incremental translate.
\<close>

record extern =
  XMQuaternionRotationRollPitchYaw :: "real \<Rightarrow> real \<Rightarrow> real \<Rightarrow> XMVECTOR"
  Camera_Translate :: "XMVECTOR \<Rightarrow> Camera \<Rightarrow> Camera"

subsection \<open>The controller state, construction and ResetView (lines 32-103)\<close>

text \<open>
  The fields of the class. \<open>m_Camera\<close> is a reference to a camera owned elsewhere, so
  the camera travels beside the controller: a state is a pair of both.
\<close>

record CameraController =
  m_X :: real
  m_Y :: real
  m_Z :: real
  m_Pitch :: real
  m_Yaw :: real
  m_PreviousPitch :: real
  m_PreviousYaw :: real
  m_InverseY :: bool

definition ResetView :: "extern \<Rightarrow> CameraController \<times> Camera \<Rightarrow> CameraController \<times> Camera" where
  "ResetView ext s =
     (let c = fst s; camera = snd s;
          c = c\<lparr>m_X := 0, m_Y := 0, m_Z := 0, m_PreviousPitch := 0, m_PreviousYaw := 0\<rparr>;
          c = c\<lparr>m_Pitch := 0\<rparr>;
          c = c\<lparr>m_Yaw := 90\<rparr>;
          rotation = XMQuaternionRotationRollPitchYaw ext
                       (XMConvertToRadians (m_Pitch c)) (XMConvertToRadians (m_Yaw c)) 0;
          camera = set_Rotation rotation camera;
          camera = set_Translation (0, 1.5, 0.25, 1) camera
      in (c, camera))"

text \<open>
  The constructor: the member initialisers, then \<open>ResetView\<close>. The registration of the
  physical controls with the two input contexts configures the input library and
  leaves no trace in the controller's own fields.
\<close>

definition CameraController_new :: "extern \<Rightarrow> Camera \<Rightarrow> CameraController \<times> Camera" where
  "CameraController_new ext camera =
     ResetView ext
       (\<lparr>m_X = 0, m_Y = 1, m_Z = 0, m_Pitch = 0, m_Yaw = 0,
         m_PreviousPitch = 0, m_PreviousYaw = 0, m_InverseY = True\<rparr>, camera)"

subsection \<open>Update (lines 105-148)\<close>

text \<open>
  The local variables of \<open>Update\<close>. The body is read in the five steps its own comments
  mark; each step is a function on the locals and the controller, and \<open>Update\<close> is
  their composition in source order.
\<close>

record locals =
  speedScale :: real
  rotationScale :: real
  loc_X :: real
  loc_Y :: real
  loc_Z :: real
  loc_pitch :: real
  loc_yaw :: real

definition MOVE_SPEED :: real where "MOVE_SPEED = 10"
definition LOOK_SENSITIVITY :: real where "LOOK_SENSITIVITY = 180"
definition MOUSE_SENSITIVITY :: real where "MOUSE_SENSITIVITY = 0.1"

text \<open>Lines 111-118: the scales and the raw deltas.\<close>

definition read_input :: "frame \<Rightarrow> locals" where
  "read_input e =
     (let sS = (if GetBool (m_PadInput e) Boost \<or> GetBool (m_KMInput e) Boost then 1 else 0.1);
          rS = (if GetBool (m_PadInput e) Boost \<or> GetBool (m_KMInput e) Boost then 1 else 0.5)
      in \<lparr>speedScale = sS, rotationScale = rS,
          loc_X = (GetFloat (m_KMInput e) MoveX + GetFloat (m_PadInput e) MoveX)
                    * MOVE_SPEED * sS * DeltaTime e,
          loc_Y = (GetFloat (m_KMInput e) MoveY + GetFloat (m_PadInput e) MoveY)
                    * MOVE_SPEED * sS * DeltaTime e,
          loc_Z = (GetFloat (m_KMInput e) MoveZ + GetFloat (m_PadInput e) MoveZ)
                    * MOVE_SPEED * sS * DeltaTime e,
          loc_pitch = GetFloat (m_PadInput e) Pitch * LOOK_SENSITIVITY * rS * DeltaTime e,
          loc_yaw = GetFloat (m_PadInput e) Yaw * LOOK_SENSITIVITY * rS * DeltaTime e\<rparr>)"

text \<open>Lines 120-125: the five calls of \<open>Smooth\<close>, each on a field and a local.\<close>

definition apply_smoothing ::
  "real \<Rightarrow> CameraController \<times> locals \<Rightarrow> CameraController \<times> locals" where
  "apply_smoothing deltaTime cl =
     (let c = fst cl; l = snd cl;
          rx = Smooth (m_X c) (loc_X l) deltaTime;
          c = c\<lparr>m_X := fst rx\<rparr>; l = l\<lparr>loc_X := snd rx\<rparr>;
          ry = Smooth (m_Y c) (loc_Y l) deltaTime;
          c = c\<lparr>m_Y := fst ry\<rparr>; l = l\<lparr>loc_Y := snd ry\<rparr>;
          rz = Smooth (m_Z c) (loc_Z l) deltaTime;
          c = c\<lparr>m_Z := fst rz\<rparr>; l = l\<lparr>loc_Z := snd rz\<rparr>;
          rp = Smooth (m_PreviousPitch c) (loc_pitch l) deltaTime;
          c = c\<lparr>m_PreviousPitch := fst rp\<rparr>; l = l\<lparr>loc_pitch := snd rp\<rparr>;
          rw = Smooth (m_PreviousYaw c) (loc_yaw l) deltaTime;
          c = c\<lparr>m_PreviousYaw := fst rw\<rparr>; l = l\<lparr>loc_yaw := snd rw\<rparr>
      in (c, l))"

text \<open>Lines 127-132: mouse motion, without smoothing, while the left button is held.\<close>

definition add_mouse_motion :: "frame \<Rightarrow> locals \<Rightarrow> locals" where
  "add_mouse_motion e l =
     (if GetBool (m_KMInput e) LMB
      then l\<lparr>loc_pitch := loc_pitch l
                 - GetFloatDelta (m_KMInput e) Pitch * MOUSE_SENSITIVITY * rotationScale l,
              loc_yaw := loc_yaw l
                 - GetFloatDelta (m_KMInput e) Yaw * MOUSE_SENSITIVITY * rotationScale l\<rparr>
      else l)"

text \<open>Lines 134-138: accumulation into the absolute angles; \<open>clamp\<close> is \<open>std::clamp\<close>.\<close>

definition clamp :: "real \<Rightarrow> real \<Rightarrow> real \<Rightarrow> real" where
  "clamp v lo hi = (if v < lo then lo else if hi < v then hi else v)"

definition accumulate :: "locals \<Rightarrow> CameraController \<Rightarrow> CameraController" where
  "accumulate l c =
     (let c = c\<lparr>m_Pitch := m_Pitch c + loc_pitch l * (if m_InverseY c then 1 else - 1)\<rparr>;
          c = c\<lparr>m_Pitch := clamp (m_Pitch c) (- 90) 90\<rparr>;
          c = c\<lparr>m_Yaw := m_Yaw c + loc_yaw l\<rparr>
      in c)"

text \<open>
  Lines 140-147: the translation \<open>{ X, Y, Z }\<close> (an aggregate of four floats, the
  fourth left at zero) and the rotation go to the camera.
\<close>

definition apply_to_camera :: "extern \<Rightarrow> locals \<Rightarrow> CameraController \<Rightarrow> Camera \<Rightarrow> Camera" where
  "apply_to_camera ext l c camera =
     (let translation = (loc_X l, loc_Y l, loc_Z l, 0);
          camera = Camera_Translate ext translation camera;
          rotation = XMQuaternionRotationRollPitchYaw ext
                       (XMConvertToRadians (m_Pitch c)) (XMConvertToRadians (m_Yaw c)) 0;
          camera = set_Rotation rotation camera
      in camera)"

definition Update :: "extern \<Rightarrow> frame \<Rightarrow> CameraController \<times> Camera \<Rightarrow> CameraController \<times> Camera" where
  "Update ext e s =
     (let c = fst s; camera = snd s;
          l = read_input e;
          cl = apply_smoothing (DeltaTime e) (c, l);
          c = fst cl; l = snd cl;
          l = add_mouse_motion e l;
          c = accumulate l c;
          camera = apply_to_camera ext l c camera
      in (c, camera))"

subsection \<open>Sample collaborators and frames for evaluating the model\<close>

text \<open>
  An input context on which nothing is pressed or moved, a camera at the origin, and
  one instance of the library parameters: the half-angle quaternion of Euler angles and
  a translate that adds the vector to the camera's position. They serve to run the
  model on concrete frames; every theorem below holds for all instances.
\<close>

definition idle :: InputMap where
  "idle = \<lparr>GetFloat = (\<lambda>b. 0), GetBool = (\<lambda>b. False), GetFloatDelta = (\<lambda>b. 0)\<rparr>"

definition with_float :: "InputMap \<Rightarrow> UserButton \<Rightarrow> real \<Rightarrow> InputMap" where
  "with_float m b v = m\<lparr>GetFloat := (GetFloat m)(b := v)\<rparr>"

definition with_bool :: "InputMap \<Rightarrow> UserButton \<Rightarrow> bool \<Rightarrow> InputMap" where
  "with_bool m b v = m\<lparr>GetBool := (GetBool m)(b := v)\<rparr>"

definition with_delta :: "InputMap \<Rightarrow> UserButton \<Rightarrow> real \<Rightarrow> InputMap" where
  "with_delta m b v = m\<lparr>GetFloatDelta := (GetFloatDelta m)(b := v)\<rparr>"

definition origin_camera :: Camera where
  "origin_camera = \<lparr>Rotation = (0, 0, 0, 1), Translation = (0, 0, 0, 1)\<rparr>"

fun XMVectorAdd :: "XMVECTOR \<Rightarrow> XMVECTOR \<Rightarrow> XMVECTOR" where
  "XMVectorAdd (a, b, c, d) (x, y, z, w) = (a + x, b + y, c + z, d + w)"

definition half_angle_quaternion :: "real \<Rightarrow> real \<Rightarrow> real \<Rightarrow> XMVECTOR" where
  "half_angle_quaternion p y r =
     (cos (r / 2) * sin (p / 2) * cos (y / 2) + sin (r / 2) * cos (p / 2) * sin (y / 2),
      cos (r / 2) * cos (p / 2) * sin (y / 2) - sin (r / 2) * sin (p / 2) * cos (y / 2),
      sin (r / 2) * cos (p / 2) * cos (y / 2) - cos (r / 2) * sin (p / 2) * sin (y / 2),
      cos (r / 2) * cos (p / 2) * cos (y / 2) + sin (r / 2) * sin (p / 2) * sin (y / 2))"

definition sample_extern :: extern where
  "sample_extern =
     \<lparr>XMQuaternionRotationRollPitchYaw = half_angle_quaternion,
      Camera_Translate = (\<lambda>v camera. camera\<lparr>Translation := XMVectorAdd (Translation camera) v\<rparr>)\<rparr>"

text \<open>The controller right after construction on the sample camera.\<close>

definition fresh :: "CameraController \<times> Camera" where
  "fresh = CameraController_new sample_extern origin_camera"

text \<open>
  Frames, all of one sixtieth of a second: the W key held; the same with the left mouse
  button held and the mouse moving; the right stick of the pad pushed to the corner with
  Boost; the mouse dragged with the left button held.
\<close>

definition walk_forward :: frame where
  "walk_forward = \<lparr>m_KMInput = with_float idle MoveZ 1, m_PadInput = idle, DeltaTime = 1 / 60\<rparr>"

definition walk_and_drag :: frame where
  "walk_and_drag =
     \<lparr>m_KMInput = with_delta (with_delta (with_bool (with_float idle MoveZ 1) LMB True)
                                Pitch (- 200)) Yaw 40,
      m_PadInput = idle, DeltaTime = 1 / 60\<rparr>"

definition pad_look :: frame where
  "pad_look = \<lparr>m_KMInput = idle,
               m_PadInput = with_bool (with_float (with_float idle Pitch 1) Yaw 1) Boost True,
               DeltaTime = 1 / 60\<rparr>"

definition mouse_drag :: frame where
  "mouse_drag = \<lparr>m_KMInput = with_delta (with_delta (with_bool idle LMB True) Pitch (- 200)) Yaw 40,
                 m_PadInput = idle, DeltaTime = 1 / 60\<rparr>"

section \<open>The same code over IEEE binary32\<close>

subsection \<open>Single-precision values, rounding and arithmetic\<close>

text \<open>
  A binary32 value is a finite real, an infinity or NaN. (The sign of zero is not
  kept: no operation of the controller tells \<open>-0\<close> from \<open>+0\<close>.) A finite value is a
  float when rounding leaves it unchanged: \<open>round_f32 x = Finite x\<close>.

  \<open>expo x\<close> is the binary exponent of \<open>x\<close>, not below that of the smallest normal
  number, so \<open>ulp x\<close> is the spacing of the floats around \<open>x\<close> (24 significant bits,
  \<open>2\<close> to the \<open>-149\<close> in the subnormal range). \<open>rne\<close> rounds to the nearest integer,
  ties to the even one. \<open>rnd_real\<close> rounds a real to the nearest multiple of its \<open>ulp\<close>
  and \<open>round_f32\<close> turns a result of magnitude \<open>2\<close> to the \<open>128\<close> or more into an infinity.
\<close>

datatype f32 = Finite real | PInf | NInf | NaN

definition expo :: "real \<Rightarrow> int" where
  "expo x = max \<lfloor>log 2 \<bar>x\<bar>\<rfloor> (- 126)"

definition ulp :: "real \<Rightarrow> real" where
  "ulp x = 2 powr of_int (expo x - 23)"

definition rne :: "real \<Rightarrow> int" where
  "rne y = (let f = \<lfloor>y\<rfloor>; r = y - of_int f
            in if r < 1 / 2 then f else if 1 / 2 < r then f + 1
               else if even f then f else f + 1)"

definition rnd_real :: "real \<Rightarrow> real" where
  "rnd_real x = (if x = 0 then 0 else ulp x * of_int (rne (x / ulp x)))"

definition round_f32 :: "real \<Rightarrow> f32" where
  "round_f32 x = (let r = rnd_real x
                  in if 2 ^ 128 \<le> r then PInf else if r \<le> - (2 ^ 128) then NInf else Finite r)"

text \<open>
  The operations: every finite result is the exact result rounded once; the special
  cases are those of IEEE 754 (\<open>inf - inf\<close> and \<open>0 * inf\<close> are NaN, NaN propagates, a
  comparison with NaN is false).
\<close>

fun f32_neg :: "f32 \<Rightarrow> f32" where
  "f32_neg (Finite x) = Finite (- x)"
| "f32_neg PInf = NInf"
| "f32_neg NInf = PInf"
| "f32_neg NaN = NaN"

fun f32_add :: "f32 \<Rightarrow> f32 \<Rightarrow> f32" where
  "f32_add (Finite x) (Finite y) = round_f32 (x + y)"
| "f32_add NaN b = NaN"
| "f32_add a NaN = NaN"
| "f32_add PInf NInf = NaN"
| "f32_add NInf PInf = NaN"
| "f32_add PInf b = PInf"
| "f32_add a PInf = PInf"
| "f32_add NInf b = NInf"
| "f32_add a NInf = NInf"

definition f32_sub :: "f32 \<Rightarrow> f32 \<Rightarrow> f32" where
  "f32_sub a b = f32_add a (f32_neg b)"

fun f32_mul :: "f32 \<Rightarrow> f32 \<Rightarrow> f32" where
  "f32_mul (Finite x) (Finite y) = round_f32 (x * y)"
| "f32_mul NaN b = NaN"
| "f32_mul a NaN = NaN"
| "f32_mul (Finite x) PInf = (if x = 0 then NaN else if 0 < x then PInf else NInf)"
| "f32_mul (Finite x) NInf = (if x = 0 then NaN else if 0 < x then NInf else PInf)"
| "f32_mul PInf (Finite y) = (if y = 0 then NaN else if 0 < y then PInf else NInf)"
| "f32_mul NInf (Finite y) = (if y = 0 then NaN else if 0 < y then NInf else PInf)"
| "f32_mul PInf PInf = PInf"
| "f32_mul PInf NInf = NInf"
| "f32_mul NInf PInf = NInf"
| "f32_mul NInf NInf = PInf"

fun f32_lt :: "f32 \<Rightarrow> f32 \<Rightarrow> bool" where
  "f32_lt (Finite x) (Finite y) = (x < y)"
| "f32_lt NaN b = False"
| "f32_lt a NaN = False"
| "f32_lt a NInf = False"
| "f32_lt PInf b = False"
| "f32_lt NInf b = True"
| "f32_lt a PInf = True"

definition f32_le :: "f32 \<Rightarrow> f32 \<Rightarrow> bool" where
  "f32_le a b = (a \<noteq> NaN \<and> b \<noteq> NaN \<and> \<not> f32_lt b a)"

fun is_finite :: "f32 \<Rightarrow> bool" where
  "is_finite (Finite x) = True"
| "is_finite a = False"

fun fabsf32 :: "f32 \<Rightarrow> f32" where
  "fabsf32 (Finite x) = Finite \<bar>x\<bar>"
| "fabsf32 PInf = PInf"
| "fabsf32 NInf = PInf"
| "fabsf32 NaN = NaN"

text \<open>
  \<open>std::powf\<close> for a finite base \<open>0 < b\<close>, the only bases the source uses (\<open>0.6\<close> and
  \<open>0.8\<close>, narrowed to float): the exact power rounded once, and the limits the C
  standard fixes for an infinite exponent. A C library may round a power less tightly;
  the evaluations below use \<open>powf\<close> only where its value is exact (exponent \<open>0\<close>,
  \<open>1\<close> or \<open>+inf\<close>), and the general statements only that the result lies in \<open>[0, 1]\<close>.
\<close>

fun powf32 :: "real \<Rightarrow> f32 \<Rightarrow> f32" where
  "powf32 b (Finite y) = round_f32 (b powr y)"
| "powf32 b PInf = (if b < 1 then Finite 0 else if b = 1 then Finite 1 else PInf)"
| "powf32 b NInf = (if b < 1 then PInf else if b = 1 then Finite 1 else Finite 0)"
| "powf32 b NaN = NaN"

subsection \<open>Lerp and Smooth over binary32 (lines 9-30)\<close>

text \<open>
  \<open>Lerp\<close> has \<open>float\<close> operands, so its sum and product are single-precision
  operations; widening the result to \<open>double\<close> and narrowing it again into \<open>x\<close> change
  nothing. \<open>deltaTime * 60.0\<close> is a double product of a float by 60, which is exact,
  narrowed to the \<open>float\<close> parameter of \<open>powf\<close>: one rounding, as \<open>f32_mul\<close> does.
\<close>

definition Lerp32 :: "f32 \<Rightarrow> f32 \<Rightarrow> f32 \<Rightarrow> f32" where
  "Lerp32 x0 x1 a = f32_add x0 (f32_mul a (f32_sub x1 x0))"

definition Smooth32 :: "f32 \<Rightarrow> f32 \<Rightarrow> f32 \<Rightarrow> f32 \<times> f32" where
  "Smooth32 x0 x1 deltaTime =
     (let x = (if f32_lt (fabsf32 x0) (fabsf32 x1)
               then Lerp32 x1 x0 (powf32 (rnd_real 0.6) (f32_mul deltaTime (Finite 60)))
               else Lerp32 x1 x0 (powf32 (rnd_real 0.8) (f32_mul deltaTime (Finite 60))))
      in (x, x))"

subsection \<open>The controller over binary32 (lines 32-148)\<close>

text \<open>
  Records and functions mirror the exact embedding above, name by name. \<open>DeltaTime\<close>
  is read as a single-precision value, the type \<open>Smooth\<close> receives it in. The library
  calls, now with \<open>XMConvertToRadians\<close> among them, are parameters.
\<close>

record InputMap32 =
  GetFloat32 :: "UserButton \<Rightarrow> f32"
  GetBool32 :: "UserButton \<Rightarrow> bool"
  GetFloatDelta32 :: "UserButton \<Rightarrow> f32"

record frame32 =
  m_KMInput32 :: InputMap32
  m_PadInput32 :: InputMap32
  DeltaTime32 :: f32

type_synonym XMVECTOR32 = "f32 \<times> f32 \<times> f32 \<times> f32"

record Camera32 =
  Rotation32 :: XMVECTOR32
  Translation32 :: XMVECTOR32

definition set_Rotation32 :: "XMVECTOR32 \<Rightarrow> Camera32 \<Rightarrow> Camera32" where
  "set_Rotation32 rotation camera = camera\<lparr>Rotation32 := rotation\<rparr>"

definition set_Translation32 :: "XMVECTOR32 \<Rightarrow> Camera32 \<Rightarrow> Camera32" where
  "set_Translation32 translation camera = camera\<lparr>Translation32 := translation\<rparr>"

record extern32 =
  XMConvertToRadians32 :: "f32 \<Rightarrow> f32"
  XMQuaternionRotationRollPitchYaw32 :: "f32 \<Rightarrow> f32 \<Rightarrow> f32 \<Rightarrow> XMVECTOR32"
  Camera_Translate32 :: "XMVECTOR32 \<Rightarrow> Camera32 \<Rightarrow> Camera32"

record CameraController32 =
  m_X32 :: f32
  m_Y32 :: f32
  m_Z32 :: f32
  m_Pitch32 :: f32
  m_Yaw32 :: f32
  m_PreviousPitch32 :: f32
  m_PreviousYaw32 :: f32
  m_InverseY32 :: bool

definition ResetView32 ::
  "extern32 \<Rightarrow> CameraController32 \<times> Camera32 \<Rightarrow> CameraController32 \<times> Camera32" where
  "ResetView32 ext s =
     (let c = fst s; camera = snd s;
          c = c\<lparr>m_X32 := Finite 0, m_Y32 := Finite 0, m_Z32 := Finite 0,
                m_PreviousPitch32 := Finite 0, m_PreviousYaw32 := Finite 0\<rparr>;
          c = c\<lparr>m_Pitch32 := Finite 0\<rparr>;
          c = c\<lparr>m_Yaw32 := Finite 90\<rparr>;
          rotation = XMQuaternionRotationRollPitchYaw32 ext
                       (XMConvertToRadians32 ext (m_Pitch32 c))
                       (XMConvertToRadians32 ext (m_Yaw32 c)) (Finite 0);
          camera = set_Rotation32 rotation camera;
          camera = set_Translation32 (Finite 0, Finite 1.5, Finite 0.25, Finite 1) camera
      in (c, camera))"

definition CameraController32_new :: "extern32 \<Rightarrow> Camera32 \<Rightarrow> CameraController32 \<times> Camera32" where
  "CameraController32_new ext camera =
     ResetView32 ext
       (\<lparr>m_X32 = Finite 0, m_Y32 = Finite 1, m_Z32 = Finite 0, m_Pitch32 = Finite 0,
         m_Yaw32 = Finite 0, m_PreviousPitch32 = Finite 0, m_PreviousYaw32 = Finite 0,
         m_InverseY32 = True\<rparr>, camera)"

record locals32 =
  speedScale32 :: f32
  rotationScale32 :: f32
  loc_X32 :: f32
  loc_Y32 :: f32
  loc_Z32 :: f32
  loc_pitch32 :: f32
  loc_yaw32 :: f32

definition MOVE_SPEED32 :: f32 where "MOVE_SPEED32 = Finite 10"
definition LOOK_SENSITIVITY32 :: f32 where "LOOK_SENSITIVITY32 = Finite 180"
definition MOUSE_SENSITIVITY32 :: f32 where "MOUSE_SENSITIVITY32 = round_f32 0.1"

definition read_input32 :: "frame32 \<Rightarrow> locals32" where
  "read_input32 e =
     (let sS = (if GetBool32 (m_PadInput32 e) Boost \<or> GetBool32 (m_KMInput32 e) Boost
                then Finite 1 else round_f32 0.1);
          rS = (if GetBool32 (m_PadInput32 e) Boost \<or> GetBool32 (m_KMInput32 e) Boost
                then Finite 1 else Finite 0.5)
      in \<lparr>speedScale32 = sS, rotationScale32 = rS,
          loc_X32 = f32_mul (f32_mul (f32_mul
                      (f32_add (GetFloat32 (m_KMInput32 e) MoveX) (GetFloat32 (m_PadInput32 e) MoveX))
                      MOVE_SPEED32) sS) (DeltaTime32 e),
          loc_Y32 = f32_mul (f32_mul (f32_mul
                      (f32_add (GetFloat32 (m_KMInput32 e) MoveY) (GetFloat32 (m_PadInput32 e) MoveY))
                      MOVE_SPEED32) sS) (DeltaTime32 e),
          loc_Z32 = f32_mul (f32_mul (f32_mul
                      (f32_add (GetFloat32 (m_KMInput32 e) MoveZ) (GetFloat32 (m_PadInput32 e) MoveZ))
                      MOVE_SPEED32) sS) (DeltaTime32 e),
          loc_pitch32 = f32_mul (f32_mul (f32_mul (GetFloat32 (m_PadInput32 e) Pitch)
                      LOOK_SENSITIVITY32) rS) (DeltaTime32 e),
          loc_yaw32 = f32_mul (f32_mul (f32_mul (GetFloat32 (m_PadInput32 e) Yaw)
                      LOOK_SENSITIVITY32) rS) (DeltaTime32 e)\<rparr>)"

definition apply_smoothing32 ::
  "f32 \<Rightarrow> CameraController32 \<times> locals32 \<Rightarrow> CameraController32 \<times> locals32" where
  "apply_smoothing32 deltaTime cl =
     (let c = fst cl; l = snd cl;
          rx = Smooth32 (m_X32 c) (loc_X32 l) deltaTime;
          c = c\<lparr>m_X32 := fst rx\<rparr>; l = l\<lparr>loc_X32 := snd rx\<rparr>;
          ry = Smooth32 (m_Y32 c) (loc_Y32 l) deltaTime;
          c = c\<lparr>m_Y32 := fst ry\<rparr>; l = l\<lparr>loc_Y32 := snd ry\<rparr>;
          rz = Smooth32 (m_Z32 c) (loc_Z32 l) deltaTime;
          c = c\<lparr>m_Z32 := fst rz\<rparr>; l = l\<lparr>loc_Z32 := snd rz\<rparr>;
          rp = Smooth32 (m_PreviousPitch32 c) (loc_pitch32 l) deltaTime;
          c = c\<lparr>m_PreviousPitch32 := fst rp\<rparr>; l = l\<lparr>loc_pitch32 := snd rp\<rparr>;
          rw = Smooth32 (m_PreviousYaw32 c) (loc_yaw32 l) deltaTime;
          c = c\<lparr>m_PreviousYaw32 := fst rw\<rparr>; l = l\<lparr>loc_yaw32 := snd rw\<rparr>
      in (c, l))"

definition add_mouse_motion32 :: "frame32 \<Rightarrow> locals32 \<Rightarrow> locals32" where
  "add_mouse_motion32 e l =
     (if GetBool32 (m_KMInput32 e) LMB
      then l\<lparr>loc_pitch32 := f32_sub (loc_pitch32 l)
                 (f32_mul (f32_mul (GetFloatDelta32 (m_KMInput32 e) Pitch) MOUSE_SENSITIVITY32)
                    (rotationScale32 l)),
              loc_yaw32 := f32_sub (loc_yaw32 l)
                 (f32_mul (f32_mul (GetFloatDelta32 (m_KMInput32 e) Yaw) MOUSE_SENSITIVITY32)
                    (rotationScale32 l))\<rparr>
      else l)"

definition clamp32 :: "f32 \<Rightarrow> f32 \<Rightarrow> f32 \<Rightarrow> f32" where
  "clamp32 v lo hi = (if f32_lt v lo then lo else if f32_lt hi v then hi else v)"

definition accumulate32 :: "locals32 \<Rightarrow> CameraController32 \<Rightarrow> CameraController32" where
  "accumulate32 l c =
     (let c = c\<lparr>m_Pitch32 := f32_add (m_Pitch32 c)
                   (f32_mul (loc_pitch32 l) (if m_InverseY32 c then Finite 1 else Finite (- 1)))\<rparr>;
          c = c\<lparr>m_Pitch32 := clamp32 (m_Pitch32 c) (Finite (- 90)) (Finite 90)\<rparr>;
          c = c\<lparr>m_Yaw32 := f32_add (m_Yaw32 c) (loc_yaw32 l)\<rparr>
      in c)"

definition apply_to_camera32 ::
  "extern32 \<Rightarrow> locals32 \<Rightarrow> CameraController32 \<Rightarrow> Camera32 \<Rightarrow> Camera32" where
  "apply_to_camera32 ext l c camera =
     (let translation = (loc_X32 l, loc_Y32 l, loc_Z32 l, Finite 0);
          camera = Camera_Translate32 ext translation camera;
          rotation = XMQuaternionRotationRollPitchYaw32 ext
                       (XMConvertToRadians32 ext (m_Pitch32 c))
                       (XMConvertToRadians32 ext (m_Yaw32 c)) (Finite 0);
          camera = set_Rotation32 rotation camera
      in camera)"

definition Update32 ::
  "extern32 \<Rightarrow> frame32 \<Rightarrow> CameraController32 \<times> Camera32 \<Rightarrow> CameraController32 \<times> Camera32" where
  "Update32 ext e s =
     (let c = fst s; camera = snd s;
          l = read_input32 e;
          cl = apply_smoothing32 (DeltaTime32 e) (c, l);
          c = fst cl; l = snd cl;
          l = add_mouse_motion32 e l;
          c = accumulate32 l c;
          camera = apply_to_camera32 ext l c camera
      in (c, camera))"

text \<open>
  A session of the controller: before each frame the axis-inversion flag takes the
  value in force for that frame, then \<open>Update\<close> runs. \<open>run32\<close> lists the states after
  each \<open>Update\<close>, in order.
\<close>

fun run32 :: "extern32 \<Rightarrow> (bool \<times> frame32) list \<Rightarrow> CameraController32 \<times> Camera32
              \<Rightarrow> (CameraController32 \<times> Camera32) list" where
  "run32 ext [] s = []"
| "run32 ext (be # es) s =
     (let s' = Update32 ext (snd be) ((fst s)\<lparr>m_InverseY32 := fst be\<rparr>, snd s)
      in s' # run32 ext es s')"

text \<open>
  The pitch is in range when it compares as at least \<open>-90\<close> and at most \<open>90\<close>; NaN
  is not. \<open>pitch_delta32\<close> is the local \<open>pitch\<close> at line 134, after smoothing and mouse
  motion.
\<close>

definition pitch_in_range :: "f32 \<Rightarrow> bool" where
  "pitch_in_range p = (f32_le (Finite (- 90)) p \<and> f32_le p (Finite 90))"

definition pitch_delta32 :: "frame32 \<Rightarrow> CameraController32 \<Rightarrow> f32" where
  "pitch_delta32 e c =
     loc_pitch32 (add_mouse_motion32 e (snd (apply_smoothing32 (DeltaTime32 e) (c, read_input32 e))))"

subsection \<open>Sample values and frames over binary32\<close>

text \<open>
  The floats nearest \<open>0.1\<close>, \<open>0.3\<close>, \<open>0.8\<close> and one sixtieth; a frame time of \<open>2\<close> to
  the \<open>123\<close> seconds (about \<open>1.06e37\<close>); stand-in library calls; a frame with the
  right stick of the pad pushed up for that long; and a frame of one sixty-fourth of a
  second with the mouse flung upwards while the left button is held.
\<close>

definition f_0_1 :: real where "f_0_1 = 13421773 / 2 ^ 27"
definition f_0_3 :: real where "f_0_3 = 10066330 / 2 ^ 25"

definition f_60th :: real where "f_60th = 8947849 / 2 ^ 29"
definition f_0_8 :: real where "f_0_8 = 13421773 / 2 ^ 24"

definition huge_dt :: real where "huge_dt = 2 ^ 123"

definition fling_delta :: real where "fling_delta = 13421773 / 2 ^ 16"

definition idle32 :: InputMap32 where
  "idle32 = \<lparr>GetFloat32 = (\<lambda>b. Finite 0), GetBool32 = (\<lambda>b. False),
             GetFloatDelta32 = (\<lambda>b. Finite 0)\<rparr>"

definition origin_camera32 :: Camera32 where
  "origin_camera32 = \<lparr>Rotation32 = (Finite 0, Finite 0, Finite 0, Finite 1),
                      Translation32 = (Finite 0, Finite 0, Finite 0, Finite 1)\<rparr>"

definition sample_extern32 :: extern32 where
  "sample_extern32 =
     \<lparr>XMConvertToRadians32 = (\<lambda>d. f32_mul d (round_f32 (pi / 180))),
      XMQuaternionRotationRollPitchYaw32 = (\<lambda>p y r. (p, y, r, Finite 0)),
      Camera_Translate32 = (\<lambda>v camera. camera)\<rparr>"

definition fresh32 :: "CameraController32 \<times> Camera32" where
  "fresh32 = CameraController32_new sample_extern32 origin_camera32"

definition overflow_frame :: frame32 where
  "overflow_frame =
     \<lparr>m_KMInput32 = idle32,
      m_PadInput32 = idle32\<lparr>GetFloat32 := (GetFloat32 idle32)(Pitch := Finite 1)\<rparr>,
      DeltaTime32 = Finite huge_dt\<rparr>"

definition fling_frame :: frame32 where
  "fling_frame =
     \<lparr>m_KMInput32 = idle32\<lparr>GetBool32 := (GetBool32 idle32)(LMB := True),
                            GetFloatDelta32 := (GetFloatDelta32 idle32)(Pitch := Finite (- 4096))\<rparr>,
      m_PadInput32 = idle32,
      DeltaTime32 = Finite (1 / 64)\<rparr>"

section \<open>The smoothing filter\<close>

lemma Smooth_snd: "snd (Smooth x0 x1 dt) = fst (Smooth x0 x1 dt)"
  by (simp add: Smooth_def Let_def)

text \<open>
  Claim C2. For every \<open>prev\<close>, \<open>target\<close> and \<open>dt\<close> the filter computes
  \<open>result = target + a * (prev - target)\<close>, where \<open>a\<close> is \<open>0.6\<close> to the power \<open>dt * 60\<close>
  if \<open>|prev| < |target|\<close> and \<open>0.8\<close> to the power \<open>dt * 60\<close> otherwise; after the call
  the stored prior value (first component) and the passed-in target (second component)
  both hold this result.
\<close>

theorem Smooth_formula:
  "Smooth prev target dt =
     (let a = (if \<bar>prev\<bar> < \<bar>target\<bar> then 0.6 powr (dt * 60) else 0.8 powr (dt * 60));
          result = target + a * (prev - target)
      in (result, result))"
  by (simp add: Smooth_def Lerp_def fabsf_def powf_def Let_def)

theorem Smooth_formula_witness:
  "Smooth 0 1 (1 / 60) = (2 / 5, 2 / 5) \<and> Smooth 1 0 (1 / 60) = (4 / 5, 4 / 5)"
  using Smooth_formula [of 0 1 "1 / 60"] Smooth_formula [of 1 0 "1 / 60"]
  by (simp add: Let_def)

subsection \<open>Convexity in exact arithmetic\<close>

text \<open>
  Over the reals both weights lie in the unit interval once \<open>dt \<ge> 0\<close>, so the result of
  the filter is a convex combination of \<open>prev\<close> and \<open>target\<close>, and at \<open>dt = 0\<close> the
  weight is one and the result is \<open>prev\<close>. This is a fact of exact arithmetic only:
  it rests on \<open>x1 + 1 * (x0 - x1) = x0\<close>, which rounded arithmetic does not grant. What
  the single-precision code guarantees instead is shown on \<open>Smooth32\<close> below.
\<close>

lemma powf_unit: "0 < b \<Longrightarrow> b \<le> 1 \<Longrightarrow> 0 \<le> y \<Longrightarrow> 0 \<le> powf b y \<and> powf b y \<le> 1"
  unfolding powf_def by (simp add: powr_le1)

lemma Lerp_between:
  assumes "0 \<le> a" "a \<le> 1"
  shows "min x0 x1 \<le> Lerp x0 x1 a \<and> Lerp x0 x1 a \<le> max x0 x1"
proof -
  have eq1: "Lerp x0 x1 a - x0 = a * (x1 - x0)"
    and eq2: "x1 - Lerp x0 x1 a = (1 - a) * (x1 - x0)"
    by (simp_all add: Lerp_def algebra_simps)
  show ?thesis
  proof (cases "x0 \<le> x1")
    case True
    then have "0 \<le> a * (x1 - x0)" "0 \<le> (1 - a) * (x1 - x0)"
      using assms by simp_all
    with eq1 eq2 True show ?thesis by linarith
  next
    case False
    then have "a * (x1 - x0) \<le> 0" "(1 - a) * (x1 - x0) \<le> 0"
      using assms by (simp_all add: mult_le_0_iff)
    with eq1 eq2 False show ?thesis by linarith
  qed
qed

lemma Smooth_weight:
  assumes "0 \<le> dt"
  shows "0 \<le> powf 0.6 (dt * 60) \<and> powf 0.6 (dt * 60) \<le> 1
       \<and> 0 \<le> powf 0.8 (dt * 60) \<and> powf 0.8 (dt * 60) \<le> 1"
proof -
  have "0 \<le> powf 0.6 (dt * 60) \<and> powf 0.6 (dt * 60) \<le> 1"
    using assms by (intro powf_unit) simp_all
  moreover have "0 \<le> powf 0.8 (dt * 60) \<and> powf 0.8 (dt * 60) \<le> 1"
    using assms by (intro powf_unit) simp_all
  ultimately show ?thesis by simp
qed

lemma Smooth_convex_exact:
  assumes "0 \<le> dt"
  shows "min prev target \<le> fst (Smooth prev target dt)
       \<and> fst (Smooth prev target dt) \<le> max prev target
       \<and> (\<exists>a. 0 \<le> a \<and> a \<le> 1 \<and> fst (Smooth prev target dt) = a * prev + (1 - a) * target)
       \<and> Smooth prev target 0 = (prev, prev)"
proof -
  note w = Smooth_weight [OF assms]
  have between: "min prev target \<le> fst (Smooth prev target dt)
       \<and> fst (Smooth prev target dt) \<le> max prev target"
    using Lerp_between [of "powf 0.6 (dt * 60)" target prev]
          Lerp_between [of "powf 0.8 (dt * 60)" target prev] w
    by (simp add: Smooth_def Let_def min.commute max.commute)
  have comb: "\<exists>a. 0 \<le> a \<and> a \<le> 1 \<and> fst (Smooth prev target dt) = a * prev + (1 - a) * target"
  proof (cases "fabsf prev < fabsf target")
    case True
    then have "fst (Smooth prev target dt)
        = powf 0.6 (dt * 60) * prev + (1 - powf 0.6 (dt * 60)) * target"
      by (simp add: Smooth_def Lerp_def Let_def algebra_simps)
    with w show ?thesis by blast
  next
    case False
    then have "fst (Smooth prev target dt)
        = powf 0.8 (dt * 60) * prev + (1 - powf 0.8 (dt * 60)) * target"
      by (simp add: Smooth_def Lerp_def Let_def algebra_simps)
    with w show ?thesis by blast
  qed
  have zero: "Smooth prev target 0 = (prev, prev)"
    by (simp add: Smooth_def Lerp_def powf_def Let_def)
  from between comb zero show ?thesis by simp
qed

section \<open>ResetView and Update, field by field\<close>

lemmas sample_defs =
  idle_def with_float_def with_bool_def with_delta_def sample_extern_def origin_camera_def
  walk_forward_def walk_and_drag_def pad_look_def mouse_drag_def

lemmas step_defs =
  read_input_def clamp_def Smooth_def Lerp_def fabsf_def powf_def MOVE_SPEED_def
  LOOK_SENSITIVITY_def MOUSE_SENSITIVITY_def Let_def

lemma CameraController_new_eq: "CameraController_new ext camera =
   (\<lparr>m_X = 0, m_Y = 0, m_Z = 0, m_Pitch = 0, m_Yaw = 90,
      m_PreviousPitch = 0, m_PreviousYaw = 0, m_InverseY = True\<rparr>,
    camera\<lparr>Rotation := XMQuaternionRotationRollPitchYaw ext
                          (XMConvertToRadians 0) (XMConvertToRadians 90) 0,
           Translation := (0, 1.5, 0.25, 1)\<rparr>)"
  by (simp add: CameraController_new_def ResetView_def Let_def set_Rotation_def
        set_Translation_def)

lemmas fresh_eq = fresh_def CameraController_new_eq

lemma sample_quaternion:
  "half_angle_quaternion (XMConvertToRadians 0) (XMConvertToRadians 90) 0
     = (0, sqrt 2 / 2, 0, sqrt 2 / 2)"
  by (simp add: half_angle_quaternion_def XMConvertToRadians_def sin_45 cos_45)

lemma apply_smoothing_eq:
  "apply_smoothing dt (c, l) =
     (c\<lparr>m_X := fst (Smooth (m_X c) (loc_X l) dt),
        m_Y := fst (Smooth (m_Y c) (loc_Y l) dt),
        m_Z := fst (Smooth (m_Z c) (loc_Z l) dt),
        m_PreviousPitch := fst (Smooth (m_PreviousPitch c) (loc_pitch l) dt),
        m_PreviousYaw := fst (Smooth (m_PreviousYaw c) (loc_yaw l) dt)\<rparr>,
      l\<lparr>loc_X := fst (Smooth (m_X c) (loc_X l) dt),
        loc_Y := fst (Smooth (m_Y c) (loc_Y l) dt),
        loc_Z := fst (Smooth (m_Z c) (loc_Z l) dt),
        loc_pitch := fst (Smooth (m_PreviousPitch c) (loc_pitch l) dt),
        loc_yaw := fst (Smooth (m_PreviousYaw c) (loc_yaw l) dt)\<rparr>)"
  by (simp add: apply_smoothing_def Let_def Smooth_snd)

lemma Update_fst: "fst (Update ext e s) =
   accumulate (add_mouse_motion e (snd (apply_smoothing (DeltaTime e) (fst s, read_input e))))
     (fst (apply_smoothing (DeltaTime e) (fst s, read_input e)))"
  by (simp add: Update_def Let_def)

lemma Update_snd: "snd (Update ext e s) =
   apply_to_camera ext
     (add_mouse_motion e (snd (apply_smoothing (DeltaTime e) (fst s, read_input e))))
     (fst (Update ext e s)) (snd s)"
  by (simp add: Update_def Let_def)

lemma Update_accumulators:
  "m_X (fst (Update ext e s)) = fst (Smooth (m_X (fst s)) (loc_X (read_input e)) (DeltaTime e))"
  "m_Y (fst (Update ext e s)) = fst (Smooth (m_Y (fst s)) (loc_Y (read_input e)) (DeltaTime e))"
  "m_Z (fst (Update ext e s)) = fst (Smooth (m_Z (fst s)) (loc_Z (read_input e)) (DeltaTime e))"
  "m_PreviousPitch (fst (Update ext e s))
     = fst (Smooth (m_PreviousPitch (fst s)) (loc_pitch (read_input e)) (DeltaTime e))"
  "m_PreviousYaw (fst (Update ext e s))
     = fst (Smooth (m_PreviousYaw (fst s)) (loc_yaw (read_input e)) (DeltaTime e))"
  by (simp_all add: Update_fst apply_smoothing_eq accumulate_def Let_def)

lemma Update_flag: "m_InverseY (fst (Update ext e s)) = m_InverseY (fst s)"
  by (simp add: Update_fst apply_smoothing_eq accumulate_def Let_def)

lemma Update_pitch:
  "m_Pitch (fst (Update ext e s)) =
     clamp (m_Pitch (fst s)
            + (fst (Smooth (m_PreviousPitch (fst s)) (loc_pitch (read_input e)) (DeltaTime e))
               - (if GetBool (m_KMInput e) LMB
                  then GetFloatDelta (m_KMInput e) Pitch * MOUSE_SENSITIVITY
                         * rotationScale (read_input e)
                  else 0))
              * (if m_InverseY (fst s) then 1 else - 1)) (- 90) 90"
proof -
  have flip: "a - (b - d) = a + (d - b)" for a b d :: real by simp
  show ?thesis
    by (simp add: Update_fst apply_smoothing_eq add_mouse_motion_def accumulate_def Let_def flip)
qed

lemma Update_yaw:
  "m_Yaw (fst (Update ext e s)) =
     m_Yaw (fst s)
     + (fst (Smooth (m_PreviousYaw (fst s)) (loc_yaw (read_input e)) (DeltaTime e))
        - (if GetBool (m_KMInput e) LMB
           then GetFloatDelta (m_KMInput e) Yaw * MOUSE_SENSITIVITY
                  * rotationScale (read_input e)
           else 0))"
  by (simp add: Update_fst apply_smoothing_eq add_mouse_motion_def accumulate_def Let_def)

lemma Update_camera:
  "snd (Update ext e s) =
     set_Rotation
       (XMQuaternionRotationRollPitchYaw ext
          (XMConvertToRadians (m_Pitch (fst (Update ext e s))))
          (XMConvertToRadians (m_Yaw (fst (Update ext e s)))) 0)
       (Camera_Translate ext
          (m_X (fst (Update ext e s)), m_Y (fst (Update ext e s)), m_Z (fst (Update ext e s)), 0)
          (snd s))"
  by (simp add: Update_snd Update_accumulators apply_to_camera_def apply_smoothing_eq
        add_mouse_motion_def Let_def)

section \<open>The claims about ResetView and Update\<close>

text \<open>
  Claim C4. \<open>ResetView\<close>, from any controller state, sets the five smoothing
  accumulators to zero, the pitch to 0 and the yaw to 90 degrees, sets the camera's
  rotation to the quaternion of (pitch 0, yaw 90, roll 0) with the two angles converted
  from degrees to radians, and sets the camera's translation to the point
  \<open>(0, 1.5, 0.25)\<close> (fourth coordinate 1). It takes no frame of input, and the one
  remaining field, the axis-inversion flag, keeps its value.
\<close>

theorem ResetView_effect:
  "m_X (fst (ResetView ext (c, camera))) = 0
   \<and> m_Y (fst (ResetView ext (c, camera))) = 0
   \<and> m_Z (fst (ResetView ext (c, camera))) = 0
   \<and> m_PreviousPitch (fst (ResetView ext (c, camera))) = 0
   \<and> m_PreviousYaw (fst (ResetView ext (c, camera))) = 0
   \<and> m_Pitch (fst (ResetView ext (c, camera))) = 0
   \<and> m_Yaw (fst (ResetView ext (c, camera))) = 90
   \<and> m_InverseY (fst (ResetView ext (c, camera))) = m_InverseY c
   \<and> Rotation (snd (ResetView ext (c, camera)))
       = XMQuaternionRotationRollPitchYaw ext (XMConvertToRadians 0) (XMConvertToRadians 90) 0
   \<and> Translation (snd (ResetView ext (c, camera))) = (0, 1.5, 0.25, 1)"
  by (simp add: ResetView_def Let_def set_Rotation_def set_Translation_def)

theorem ResetView_effect_witness:
  "ResetView sample_extern
     (\<lparr>m_X = 3, m_Y = 1, m_Z = - 2, m_Pitch = 45, m_Yaw = 10,
       m_PreviousPitch = 7, m_PreviousYaw = 8, m_InverseY = False\<rparr>, origin_camera)
   = (\<lparr>m_X = 0, m_Y = 0, m_Z = 0, m_Pitch = 0, m_Yaw = 90,
       m_PreviousPitch = 0, m_PreviousYaw = 0, m_InverseY = False\<rparr>,
      \<lparr>Rotation = (0, sqrt 2 / 2, 0, sqrt 2 / 2), Translation = (0, 3 / 2, 1 / 4, 1)\<rparr>)"
  using ResetView_effect
          [of sample_extern
              "\<lparr>m_X = 3, m_Y = 1, m_Z = - 2, m_Pitch = 45, m_Yaw = 10,
                m_PreviousPitch = 7, m_PreviousYaw = 8, m_InverseY = False\<rparr>" origin_camera]
        sample_quaternion
  by (simp add: ResetView_def Let_def set_Rotation_def set_Translation_def sample_extern_def
        origin_camera_def)

text \<open>
  Claim C5. In every \<open>Update\<close> the raw translation deltas are (keyboard/mouse axis value
  + gamepad axis value) * 10 * speedScale * DeltaTime for MoveX, MoveY and MoveZ, and
  the raw pitch and yaw deltas are the gamepad axis value alone * 180 * rotationScale *
  DeltaTime, where (speedScale, rotationScale) is (1, 1) if Boost is held in either
  input context and (0.1, 0.5) otherwise. These raw deltas are what \<open>Update\<close> hands to
  the filter: each accumulator after the call is the filter's result on its old value
  and the raw delta.
\<close>

theorem Update_raw_deltas:
  "speedScale (read_input e)
     = (if GetBool (m_PadInput e) Boost \<or> GetBool (m_KMInput e) Boost then 1 else 0.1)
   \<and> rotationScale (read_input e)
     = (if GetBool (m_PadInput e) Boost \<or> GetBool (m_KMInput e) Boost then 1 else 0.5)
   \<and> loc_X (read_input e)
     = (GetFloat (m_KMInput e) MoveX + GetFloat (m_PadInput e) MoveX)
         * 10 * speedScale (read_input e) * DeltaTime e
   \<and> loc_Y (read_input e)
     = (GetFloat (m_KMInput e) MoveY + GetFloat (m_PadInput e) MoveY)
         * 10 * speedScale (read_input e) * DeltaTime e
   \<and> loc_Z (read_input e)
     = (GetFloat (m_KMInput e) MoveZ + GetFloat (m_PadInput e) MoveZ)
         * 10 * speedScale (read_input e) * DeltaTime e
   \<and> loc_pitch (read_input e)
     = GetFloat (m_PadInput e) Pitch * 180 * rotationScale (read_input e) * DeltaTime e
   \<and> loc_yaw (read_input e)
     = GetFloat (m_PadInput e) Yaw * 180 * rotationScale (read_input e) * DeltaTime e
   \<and> m_X (fst (Update ext e (c, camera)))
     = fst (Smooth (m_X c) (loc_X (read_input e)) (DeltaTime e))
   \<and> m_Y (fst (Update ext e (c, camera)))
     = fst (Smooth (m_Y c) (loc_Y (read_input e)) (DeltaTime e))
   \<and> m_Z (fst (Update ext e (c, camera)))
     = fst (Smooth (m_Z c) (loc_Z (read_input e)) (DeltaTime e))
   \<and> m_PreviousPitch (fst (Update ext e (c, camera)))
     = fst (Smooth (m_PreviousPitch c) (loc_pitch (read_input e)) (DeltaTime e))
   \<and> m_PreviousYaw (fst (Update ext e (c, camera)))
     = fst (Smooth (m_PreviousYaw c) (loc_yaw (read_input e)) (DeltaTime e))"
proof -
  have raw: "speedScale (read_input e)
     = (if GetBool (m_PadInput e) Boost \<or> GetBool (m_KMInput e) Boost then 1 else 0.1)
   \<and> rotationScale (read_input e)
     = (if GetBool (m_PadInput e) Boost \<or> GetBool (m_KMInput e) Boost then 1 else 0.5)
   \<and> loc_X (read_input e)
     = (GetFloat (m_KMInput e) MoveX + GetFloat (m_PadInput e) MoveX)
         * 10 * speedScale (read_input e) * DeltaTime e
   \<and> loc_Y (read_input e)
     = (GetFloat (m_KMInput e) MoveY + GetFloat (m_PadInput e) MoveY)
         * 10 * speedScale (read_input e) * DeltaTime e
   \<and> loc_Z (read_input e)
     = (GetFloat (m_KMInput e) MoveZ + GetFloat (m_PadInput e) MoveZ)
         * 10 * speedScale (read_input e) * DeltaTime e
   \<and> loc_pitch (read_input e)
     = GetFloat (m_PadInput e) Pitch * 180 * rotationScale (read_input e) * DeltaTime e
   \<and> loc_yaw (read_input e)
     = GetFloat (m_PadInput e) Yaw * 180 * rotationScale (read_input e) * DeltaTime e"
    by (simp add: read_input_def MOVE_SPEED_def LOOK_SENSITIVITY_def Let_def)
  show ?thesis
    using raw Update_accumulators [of ext e "(c, camera)"] by simp
qed

theorem Update_raw_deltas_witness:
  "speedScale (read_input walk_forward) = 1 / 10
   \<and> rotationScale (read_input walk_forward) = 1 / 2
   \<and> loc_Z (read_input walk_forward) = 1 / 60
   \<and> m_Z (fst (Update sample_extern walk_forward fresh)) = 1 / 150
   \<and> speedScale (read_input pad_look) = 1
   \<and> loc_pitch (read_input pad_look) = 3
   \<and> m_PreviousPitch (fst (Update sample_extern pad_look fresh)) = 6 / 5"
  using Update_raw_deltas [of walk_forward sample_extern "fst fresh" "snd fresh"]
        Update_raw_deltas [of pad_look sample_extern "fst fresh" "snd fresh"]
  by (simp add: fresh_eq step_defs sample_defs)

text \<open>
  Claim C6. In every \<open>Update\<close> with the left mouse button held, the Pitch axis delta of
  the keyboard/mouse context * 0.1 * rotationScale is subtracted from the pitch delta
  and the Yaw axis delta * 0.1 * rotationScale from the yaw delta, after smoothing and
  before the deltas are accumulated into the absolute angles; with the button not held
  the deltas pass unchanged.
\<close>

theorem mouse_motion_unsmoothed:
  "(GetBool (m_KMInput e) LMB \<longrightarrow>
      loc_pitch (add_mouse_motion e l)
        = loc_pitch l - GetFloatDelta (m_KMInput e) Pitch * 0.1 * rotationScale l
      \<and> loc_yaw (add_mouse_motion e l)
        = loc_yaw l - GetFloatDelta (m_KMInput e) Yaw * 0.1 * rotationScale l
      \<and> m_Yaw (fst (Update ext e (c, camera)))
        = m_Yaw c
          + (fst (Smooth (m_PreviousYaw c) (loc_yaw (read_input e)) (DeltaTime e))
             - GetFloatDelta (m_KMInput e) Yaw * 0.1 * rotationScale (read_input e))
      \<and> m_Pitch (fst (Update ext e (c, camera)))
        = clamp (m_Pitch c
                 + (fst (Smooth (m_PreviousPitch c) (loc_pitch (read_input e)) (DeltaTime e))
                    - GetFloatDelta (m_KMInput e) Pitch * 0.1 * rotationScale (read_input e))
                   * (if m_InverseY c then 1 else - 1)) (- 90) 90)
   \<and> (\<not> GetBool (m_KMInput e) LMB \<longrightarrow>
      add_mouse_motion e l = l
      \<and> m_Yaw (fst (Update ext e (c, camera)))
        = m_Yaw c + fst (Smooth (m_PreviousYaw c) (loc_yaw (read_input e)) (DeltaTime e))
      \<and> m_Pitch (fst (Update ext e (c, camera)))
        = clamp (m_Pitch c
                 + fst (Smooth (m_PreviousPitch c) (loc_pitch (read_input e)) (DeltaTime e))
                   * (if m_InverseY c then 1 else - 1)) (- 90) 90)"
proof -
  have step: "GetBool (m_KMInput e) LMB \<Longrightarrow>
      loc_pitch (add_mouse_motion e l)
        = loc_pitch l - GetFloatDelta (m_KMInput e) Pitch * 0.1 * rotationScale l
      \<and> loc_yaw (add_mouse_motion e l)
        = loc_yaw l - GetFloatDelta (m_KMInput e) Yaw * 0.1 * rotationScale l"
    by (simp add: add_mouse_motion_def MOUSE_SENSITIVITY_def)
  have skip: "\<not> GetBool (m_KMInput e) LMB \<Longrightarrow> add_mouse_motion e l = l"
    by (simp add: add_mouse_motion_def)
  have yawT: "GetBool (m_KMInput e) LMB \<Longrightarrow>
      m_Yaw (fst (Update ext e (c, camera)))
        = m_Yaw c
          + (fst (Smooth (m_PreviousYaw c) (loc_yaw (read_input e)) (DeltaTime e))
             - GetFloatDelta (m_KMInput e) Yaw * 0.1 * rotationScale (read_input e))"
    by (simp add: Update_yaw MOUSE_SENSITIVITY_def)
  have pitchT: "GetBool (m_KMInput e) LMB \<Longrightarrow>
      m_Pitch (fst (Update ext e (c, camera)))
        = clamp (m_Pitch c
                 + (fst (Smooth (m_PreviousPitch c) (loc_pitch (read_input e)) (DeltaTime e))
                    - GetFloatDelta (m_KMInput e) Pitch * 0.1 * rotationScale (read_input e))
                   * (if m_InverseY c then 1 else - 1)) (- 90) 90"
    by (simp add: Update_pitch MOUSE_SENSITIVITY_def)
  have yawF: "\<not> GetBool (m_KMInput e) LMB \<Longrightarrow>
      m_Yaw (fst (Update ext e (c, camera)))
        = m_Yaw c + fst (Smooth (m_PreviousYaw c) (loc_yaw (read_input e)) (DeltaTime e))"
    by (simp add: Update_yaw)
  have pitchF: "\<not> GetBool (m_KMInput e) LMB \<Longrightarrow>
      m_Pitch (fst (Update ext e (c, camera)))
        = clamp (m_Pitch c
                 + fst (Smooth (m_PreviousPitch c) (loc_pitch (read_input e)) (DeltaTime e))
                   * (if m_InverseY c then 1 else - 1)) (- 90) 90"
    by (simp add: Update_pitch)
  from step skip yawT pitchT yawF pitchF show ?thesis by blast
qed

theorem mouse_motion_unsmoothed_witness:
  "GetBool (m_KMInput mouse_drag) LMB
   \<and> m_Yaw (fst (Update sample_extern mouse_drag fresh)) = 88
   \<and> m_Pitch (fst (Update sample_extern mouse_drag fresh)) = 10
   \<and> m_PreviousYaw (fst (Update sample_extern mouse_drag fresh)) = 0
   \<and> m_PreviousPitch (fst (Update sample_extern mouse_drag fresh)) = 0
   \<and> \<not> GetBool (m_KMInput pad_look) LMB
   \<and> m_Yaw (fst (Update sample_extern pad_look fresh)) = 90 + 6 / 5
   \<and> m_Pitch (fst (Update sample_extern pad_look fresh)) = 6 / 5"
  using mouse_motion_unsmoothed
          [of mouse_drag "read_input mouse_drag" sample_extern "fst fresh" "snd fresh"]
        mouse_motion_unsmoothed
          [of pad_look "read_input pad_look" sample_extern "fst fresh" "snd fresh"]
  by (simp add: fresh_eq step_defs sample_defs Update_accumulators)

text \<open>
  Claim C7. Two \<open>Update\<close> runs from the same controller state with the same frame,
  differing only in the axis-inversion flag: the change applied to the absolute pitch
  before clamping is the pitch delta times +1 with the flag set and times -1 with the
  flag clear, so the two changes are opposite; the absolute yaw receives the yaw delta
  in both runs alike, with no inversion and no clamp.
\<close>

theorem inversion_flips_pitch_only:
  "(let dp = fst (Smooth (m_PreviousPitch c) (loc_pitch (read_input e)) (DeltaTime e))
              - (if GetBool (m_KMInput e) LMB
                 then GetFloatDelta (m_KMInput e) Pitch * 0.1 * rotationScale (read_input e)
                 else 0);
        dy = fst (Smooth (m_PreviousYaw c) (loc_yaw (read_input e)) (DeltaTime e))
              - (if GetBool (m_KMInput e) LMB
                 then GetFloatDelta (m_KMInput e) Yaw * 0.1 * rotationScale (read_input e)
                 else 0);
        set = fst (Update ext e (c\<lparr>m_InverseY := True\<rparr>, camera));
        clear = fst (Update ext e (c\<lparr>m_InverseY := False\<rparr>, camera))
    in m_Pitch set = clamp (m_Pitch c + dp * 1) (- 90) 90
     \<and> m_Pitch clear = clamp (m_Pitch c + dp * (- 1)) (- 90) 90
     \<and> dp * 1 = - (dp * (- 1))
     \<and> m_Yaw set = m_Yaw c + dy
     \<and> m_Yaw clear = m_Yaw c + dy)"
proof -
  have flip: "a - (b - d) = a + (d - b)" for a b d :: real by simp
  show ?thesis
    by (simp add: Let_def Update_pitch Update_yaw MOUSE_SENSITIVITY_def flip)
qed

theorem inversion_flips_pitch_only_witness:
  "m_Pitch (fst (Update sample_extern pad_look ((fst fresh)\<lparr>m_InverseY := True\<rparr>, snd fresh)))
     = 6 / 5
   \<and> m_Pitch (fst (Update sample_extern pad_look ((fst fresh)\<lparr>m_InverseY := False\<rparr>, snd fresh)))
     = - (6 / 5)
   \<and> m_Yaw (fst (Update sample_extern pad_look ((fst fresh)\<lparr>m_InverseY := True\<rparr>, snd fresh)))
     = 90 + 6 / 5
   \<and> m_Yaw (fst (Update sample_extern pad_look ((fst fresh)\<lparr>m_InverseY := False\<rparr>, snd fresh)))
     = 90 + 6 / 5"
  using inversion_flips_pitch_only [of "fst fresh" pad_look sample_extern "snd fresh"]
  by (simp add: fresh_eq step_defs sample_defs Update_pitch Update_yaw)

text \<open>
  Claim C8. Every \<open>Update\<close> translates the camera by the smoothed vector (X, Y, Z), the
  values after the filter, and then sets the camera's rotation to the quaternion
  computed from the absolute (pitch, yaw, 0) with the angles converted from degrees to
  radians. The rotation does not depend on the rotation the camera had before.
\<close>

theorem Update_camera_effect:
  "snd (Update ext e (c, camera))
     = set_Rotation
         (XMQuaternionRotationRollPitchYaw ext
            (XMConvertToRadians (m_Pitch (fst (Update ext e (c, camera)))))
            (XMConvertToRadians (m_Yaw (fst (Update ext e (c, camera))))) 0)
         (Camera_Translate ext
            (fst (Smooth (m_X c) (loc_X (read_input e)) (DeltaTime e)),
             fst (Smooth (m_Y c) (loc_Y (read_input e)) (DeltaTime e)),
             fst (Smooth (m_Z c) (loc_Z (read_input e)) (DeltaTime e)), 0)
            camera)
   \<and> Rotation (snd (Update ext e (c, camera)))
     = XMQuaternionRotationRollPitchYaw ext
         (XMConvertToRadians (m_Pitch (fst (Update ext e (c, camera)))))
         (XMConvertToRadians (m_Yaw (fst (Update ext e (c, camera))))) 0
   \<and> Rotation (snd (Update ext e (c, camera'))) = Rotation (snd (Update ext e (c, camera)))"
proof -
  have cam: "snd (Update ext e (c, k))
     = set_Rotation
         (XMQuaternionRotationRollPitchYaw ext
            (XMConvertToRadians (m_Pitch (fst (Update ext e (c, k)))))
            (XMConvertToRadians (m_Yaw (fst (Update ext e (c, k))))) 0)
         (Camera_Translate ext
            (fst (Smooth (m_X c) (loc_X (read_input e)) (DeltaTime e)),
             fst (Smooth (m_Y c) (loc_Y (read_input e)) (DeltaTime e)),
             fst (Smooth (m_Z c) (loc_Z (read_input e)) (DeltaTime e)), 0)
            k)" for k
    using Update_camera [of ext e "(c, k)"] Update_accumulators [of ext e "(c, k)"] by simp
  have same: "fst (Update ext e (c, camera)) = fst (Update ext e (c, camera'))"
    by (simp add: Update_fst)
  have rot: "Rotation (snd (Update ext e (c, k)))
     = XMQuaternionRotationRollPitchYaw ext
         (XMConvertToRadians (m_Pitch (fst (Update ext e (c, k)))))
         (XMConvertToRadians (m_Yaw (fst (Update ext e (c, k))))) 0" for k
    by (subst cam) (simp add: set_Rotation_def)
  from cam [of camera] rot [of camera] rot [of camera'] same show ?thesis by simp
qed

theorem Update_camera_effect_witness:
  "loc_Z (read_input walk_forward) = 1 / 60
   \<and> Translation (snd (Update sample_extern walk_forward fresh)) = (0, 3 / 2, 1 / 4 + 1 / 150, 1)
   \<and> Rotation (snd (Update sample_extern walk_forward fresh)) = (0, sqrt 2 / 2, 0, sqrt 2 / 2)
   \<and> Rotation (snd (Update sample_extern walk_forward
                      (fst fresh, (snd fresh)\<lparr>Rotation := (1, 0, 0, 0)\<rparr>)))
       = (0, sqrt 2 / 2, 0, sqrt 2 / 2)"
proof -
  have pose: "m_Pitch (fst (Update sample_extern walk_forward fresh)) = 0"
    "m_Yaw (fst (Update sample_extern walk_forward fresh)) = 90"
    by (simp_all add: Update_pitch Update_yaw fresh_eq step_defs sample_defs)
  have raw: "loc_Z (read_input walk_forward) = 1 / 60"
    by (simp add: step_defs sample_defs)
  note quat = sample_quaternion
  from Update_camera_effect
         [of sample_extern walk_forward "fst fresh" "snd fresh"
             "(snd fresh)\<lparr>Rotation := (1, 0, 0, 0)\<rparr>"] pose quat raw
  show ?thesis
    by (simp add: fresh_eq step_defs sample_defs set_Rotation_def)
qed

text \<open>
  Claim C9. The five smoothing accumulators after an \<open>Update\<close> do not depend on the
  left mouse button or on the axis deltas: two frames with the same axis values, the
  same Boost state and the same \<open>DeltaTime\<close>, run from the same state, leave all five
  accumulators equal.
\<close>

theorem accumulators_ignore_mouse:
  assumes "GetFloat (m_KMInput e1) = GetFloat (m_KMInput e2)"
    and "GetFloat (m_PadInput e1) = GetFloat (m_PadInput e2)"
    and "GetBool (m_KMInput e1) Boost = GetBool (m_KMInput e2) Boost"
    and "GetBool (m_PadInput e1) Boost = GetBool (m_PadInput e2) Boost"
    and "DeltaTime e1 = DeltaTime e2"
  shows "m_X (fst (Update ext e1 s)) = m_X (fst (Update ext e2 s))
       \<and> m_Y (fst (Update ext e1 s)) = m_Y (fst (Update ext e2 s))
       \<and> m_Z (fst (Update ext e1 s)) = m_Z (fst (Update ext e2 s))
       \<and> m_PreviousPitch (fst (Update ext e1 s)) = m_PreviousPitch (fst (Update ext e2 s))
       \<and> m_PreviousYaw (fst (Update ext e1 s)) = m_PreviousYaw (fst (Update ext e2 s))"
proof -
  have "read_input e1 = read_input e2"
    using assms by (simp add: read_input_def)
  with assms(5) show ?thesis
    by (simp add: Update_accumulators)
qed

theorem accumulators_ignore_mouse_witness:
  "GetFloat (m_KMInput walk_forward) = GetFloat (m_KMInput walk_and_drag)
   \<and> GetFloat (m_PadInput walk_forward) = GetFloat (m_PadInput walk_and_drag)
   \<and> GetBool (m_KMInput walk_forward) Boost = GetBool (m_KMInput walk_and_drag) Boost
   \<and> GetBool (m_PadInput walk_forward) Boost = GetBool (m_PadInput walk_and_drag) Boost
   \<and> DeltaTime walk_forward = DeltaTime walk_and_drag
   \<and> GetBool (m_KMInput walk_forward) LMB \<noteq> GetBool (m_KMInput walk_and_drag) LMB
   \<and> m_Z (fst (Update sample_extern walk_forward fresh)) = 1 / 150
   \<and> m_Z (fst (Update sample_extern walk_and_drag fresh)) = 1 / 150
   \<and> m_PreviousPitch (fst (Update sample_extern walk_and_drag fresh)) = 0
   \<and> m_Pitch (fst (Update sample_extern walk_forward fresh)) = 0
   \<and> m_Pitch (fst (Update sample_extern walk_and_drag fresh)) = 10"
proof -
  have h1: "GetFloat (m_KMInput walk_forward) = GetFloat (m_KMInput walk_and_drag)"
    and h2: "GetFloat (m_PadInput walk_forward) = GetFloat (m_PadInput walk_and_drag)"
    and h3: "GetBool (m_KMInput walk_forward) Boost = GetBool (m_KMInput walk_and_drag) Boost"
    and h4: "GetBool (m_PadInput walk_forward) Boost = GetBool (m_PadInput walk_and_drag) Boost"
    and h5: "DeltaTime walk_forward = DeltaTime walk_and_drag"
    and h6: "GetBool (m_KMInput walk_forward) LMB \<noteq> GetBool (m_KMInput walk_and_drag) LMB"
    by (simp_all add: sample_defs walk_and_drag_def)
  have v: "m_Z (fst (Update sample_extern walk_forward fresh)) = 1 / 150"
    "m_PreviousPitch (fst (Update sample_extern walk_forward fresh)) = 0"
    "m_Pitch (fst (Update sample_extern walk_forward fresh)) = 0"
    "m_Pitch (fst (Update sample_extern walk_and_drag fresh)) = 10"
    by (simp_all add: Update_accumulators Update_pitch fresh_eq step_defs sample_defs
          walk_and_drag_def)
  from accumulators_ignore_mouse [OF h1 h2 h3 h4 h5, of sample_extern fresh] v
  have "m_Z (fst (Update sample_extern walk_and_drag fresh)) = 1 / 150"
    "m_PreviousPitch (fst (Update sample_extern walk_and_drag fresh)) = 0"
    by simp_all
  with h1 h2 h3 h4 h5 h6 v show ?thesis by blast
qed

text \<open>
  Claim C10. With the left mouse button held, the unsmoothed mouse contribution to the
  pitch goes through the same inversion factor as the smoothed delta: the absolute pitch
  before clamping changes by \<open>s * (smoothed pitch delta - pitch axis delta * 0.1 *
  rotationScale)\<close>, with \<open>s = 1\<close> if the axis-inversion flag is set and \<open>-1\<close> otherwise.
  With the flag clear the mouse contribution is therefore added to the absolute pitch.
\<close>

theorem mouse_pitch_follows_inversion:
  assumes "GetBool (m_KMInput e) LMB"
  shows "m_Pitch (fst (Update ext e (c, camera)))
       = clamp (m_Pitch c
                + (if m_InverseY c then 1 else - 1)
                  * (fst (Smooth (m_PreviousPitch c) (loc_pitch (read_input e)) (DeltaTime e))
                     - GetFloatDelta (m_KMInput e) Pitch * 0.1 * rotationScale (read_input e)))
           (- 90) 90
     \<and> (\<not> m_InverseY c \<longrightarrow>
          m_Pitch (fst (Update ext e (c, camera)))
            = clamp (m_Pitch c
                     - fst (Smooth (m_PreviousPitch c) (loc_pitch (read_input e)) (DeltaTime e))
                     + GetFloatDelta (m_KMInput e) Pitch * 0.1 * rotationScale (read_input e))
                (- 90) 90)"
proof -
  let ?sP = "fst (Smooth (m_PreviousPitch c) (loc_pitch (read_input e)) (DeltaTime e))"
  let ?D = "GetFloatDelta (m_KMInput e) Pitch * 0.1 * rotationScale (read_input e)"
  let ?s = "if m_InverseY c then 1 else - 1 :: real"
  have base: "m_Pitch (fst (Update ext e (c, camera)))
      = clamp (m_Pitch c + (?sP - ?D) * ?s) (- 90) 90"
    by (simp only: Update_pitch fst_conv assms if_True MOUSE_SENSITIVITY_def)
  have one: "m_Pitch c + (?sP - ?D) * ?s = m_Pitch c + ?s * (?sP - ?D)"
    by (simp only: mult.commute)
  have two: "m_Pitch c + (?sP - ?D) * ?s = m_Pitch c - ?sP + ?D" if "\<not> m_InverseY c"
    using that by simp
  from base one have first: "m_Pitch (fst (Update ext e (c, camera)))
      = clamp (m_Pitch c + ?s * (?sP - ?D)) (- 90) 90"
    by (simp only:)
  have second: "m_Pitch (fst (Update ext e (c, camera)))
      = clamp (m_Pitch c - ?sP + ?D) (- 90) 90" if "\<not> m_InverseY c"
    using base two [OF that] by (simp only:)
  from first second show ?thesis by blast
qed

theorem mouse_pitch_follows_inversion_witness:
  "GetBool (m_KMInput mouse_drag) LMB
   \<and> \<not> m_InverseY ((fst fresh)\<lparr>m_InverseY := False\<rparr>)
   \<and> GetFloatDelta (m_KMInput mouse_drag) Pitch * 0.1 * rotationScale (read_input mouse_drag)
       = - 10
   \<and> m_Pitch (fst (Update sample_extern mouse_drag
                      ((fst fresh)\<lparr>m_InverseY := False\<rparr>, snd fresh))) = - 10
   \<and> m_Pitch (fst (Update sample_extern mouse_drag
                      ((fst fresh)\<lparr>m_InverseY := True\<rparr>, snd fresh))) = 10"
proof -
  have h: "GetBool (m_KMInput mouse_drag) LMB"
    by (simp add: sample_defs)
  from mouse_pitch_follows_inversion
         [OF h, of sample_extern "(fst fresh)\<lparr>m_InverseY := False\<rparr>" "snd fresh"]
       mouse_pitch_follows_inversion
         [OF h, of sample_extern "(fst fresh)\<lparr>m_InverseY := True\<rparr>" "snd fresh"] h
  show ?thesis
    by (simp add: fresh_eq step_defs sample_defs)
qed

section \<open>Rounding to binary32\<close>

subsection \<open>Rounding to the nearest integer\<close>

lemma rne_of_int: "rne (of_int n) = n"
  by (simp add: rne_def)

lemma rne_bounds: "\<lfloor>y\<rfloor> \<le> rne y \<and> rne y \<le> \<lfloor>y\<rfloor> + 1"
  by (simp add: rne_def Let_def)

lemma rne_le_of_int: "y \<le> of_int n \<Longrightarrow> rne y \<le> n"
proof (cases "y = of_int \<lfloor>y\<rfloor>")
  case True
  assume "y \<le> of_int n"
  then have "\<lfloor>y\<rfloor> \<le> n" by (simp add: floor_le_iff)
  moreover have "rne y = \<lfloor>y\<rfloor>" using True rne_of_int [of "\<lfloor>y\<rfloor>"] by simp
  ultimately show ?thesis by simp
next
  case False
  assume le: "y \<le> of_int n"
  have "of_int \<lfloor>y\<rfloor> < y" using False of_int_floor_le [of y] by linarith
  with le have "of_int \<lfloor>y\<rfloor> < (of_int n :: real)" by linarith
  then have "\<lfloor>y\<rfloor> < n" by simp
  with rne_bounds [of y] show ?thesis by linarith
qed

lemma rne_ge_of_int: "of_int n \<le> y \<Longrightarrow> n \<le> rne y"
proof -
  assume "of_int n \<le> y"
  then have "n \<le> \<lfloor>y\<rfloor>" by (simp add: le_floor_iff)
  with rne_bounds [of y] show ?thesis by linarith
qed

lemma rne_mono: "y \<le> z \<Longrightarrow> rne y \<le> rne z"
proof (cases "\<lfloor>y\<rfloor> = \<lfloor>z\<rfloor>")
  case True
  assume "y \<le> z"
  with True show ?thesis by (auto simp: rne_def Let_def)
next
  case False
  assume le: "y \<le> z"
  then have "\<lfloor>y\<rfloor> \<le> \<lfloor>z\<rfloor>" by (rule floor_mono)
  with False have lt: "\<lfloor>y\<rfloor> + 1 \<le> \<lfloor>z\<rfloor>" by simp
  from rne_bounds [of y] rne_bounds [of z] lt show ?thesis by linarith
qed

lemma rne_minus: "rne (- y) = - rne y"
proof (cases "y = of_int \<lfloor>y\<rfloor>")
  case True
  then obtain n where "y = of_int n" ..
  then have "- y = of_int (- n)" by simp
  then show ?thesis using \<open>y = of_int n\<close> rne_of_int [of n] rne_of_int [of "- n"] by simp
next
  case False
  then have "\<lceil>y\<rceil> = \<lfloor>y\<rfloor> + 1" by (simp add: ceiling_altdef)
  then have fl: "\<lfloor>- y\<rfloor> = - \<lfloor>y\<rfloor> - 1" by (simp add: ceiling_def)
  show ?thesis
    using False by (auto simp: rne_def Let_def fl)
qed

subsection \<open>Exponent and spacing\<close>

lemma two_powr_int_mono: "a \<le> b \<Longrightarrow> (2::real) powr of_int a \<le> 2 powr of_int b"
  by (simp add: powr_mono)

lemma two_powr_int_add: "(2::real) powr of_int (a + b) = 2 powr of_int a * 2 powr of_int b"
  by (simp add: powr_add)

lemma ulp_pos: "0 < ulp x"
  by (simp add: ulp_def)

lemma ulp_times: "ulp x * 2 powr of_int n = 2 powr of_int (expo x - 23 + n)"
  by (simp add: ulp_def powr_add)

lemma ulp_times_24: "ulp x * 2 powr of_int 24 = 2 powr of_int (expo x + 1)"
proof -
  have "expo x - 23 + 24 = expo x + 1" by simp
  then show ?thesis by (simp only: ulp_times)
qed

lemma ulp_times_23: "ulp x * 2 powr of_int 23 = 2 powr of_int (expo x)"
proof -
  have "expo x - 23 + 23 = expo x" by simp
  then show ?thesis by (simp only: ulp_times)
qed

lemma expo_minus: "expo (- x) = expo x"
  by (simp add: expo_def)

lemma ulp_minus: "ulp (- x) = ulp x"
  by (simp add: ulp_def expo_minus)

lemma expo_ge: "- 126 \<le> expo x"
  by (simp add: expo_def)

lemma expo_upper:
  assumes "x \<noteq> 0"
  shows "\<bar>x\<bar> < 2 powr of_int (expo x + 1)"
proof -
  have pos: "0 < \<bar>x\<bar>" using assms by simp
  have "\<bar>x\<bar> < 2 powr (of_int \<lfloor>log 2 \<bar>x\<bar>\<rfloor> + 1)"
    using floor_log_eq_powr_iff [OF pos, of 2 "\<lfloor>log 2 \<bar>x\<bar>\<rfloor>"] by simp
  also have "\<dots> = 2 powr of_int (\<lfloor>log 2 \<bar>x\<bar>\<rfloor> + 1)" by simp
  also have "\<dots> \<le> 2 powr of_int (expo x + 1)"
    by (rule two_powr_int_mono) (simp add: expo_def)
  finally show ?thesis .
qed

lemma expo_lower:
  assumes "x \<noteq> 0" and "- 126 < expo x"
  shows "2 powr of_int (expo x) \<le> \<bar>x\<bar>"
proof -
  have pos: "0 < \<bar>x\<bar>" using assms by simp
  have "expo x = \<lfloor>log 2 \<bar>x\<bar>\<rfloor>" using assms(2) by (simp add: expo_def max_def split: if_splits)
  then show ?thesis
    using floor_log_eq_powr_iff [OF pos, of 2 "\<lfloor>log 2 \<bar>x\<bar>\<rfloor>"] by simp
qed

lemma expo_mono:
  assumes "x \<noteq> 0" and "\<bar>x\<bar> \<le> \<bar>y\<bar>"
  shows "expo x \<le> expo y"
proof -
  have "log 2 \<bar>x\<bar> \<le> log 2 \<bar>y\<bar>" using assms by (intro log_mono) simp_all
  then have "\<lfloor>log 2 \<bar>x\<bar>\<rfloor> \<le> \<lfloor>log 2 \<bar>y\<bar>\<rfloor>" by (rule floor_mono)
  then show ?thesis by (simp add: expo_def)
qed

lemma expo_eqI:
  assumes "2 powr of_int k \<le> \<bar>x\<bar>" and "\<bar>x\<bar> < 2 powr of_int (k + 1)" and "- 126 \<le> k"
  shows "expo x = k"
proof -
  have pos: "0 < \<bar>x\<bar>" using assms(1) by (smt (verit) powr_gt_zero)
  have "\<lfloor>log 2 \<bar>x\<bar>\<rfloor> = k"
    using floor_log_eq_powr_iff [OF pos, of 2 k] assms by simp
  with assms(3) show ?thesis by (simp add: expo_def)
qed

lemma scaled_upper:
  assumes "0 < x"
  shows "x / ulp x < 2 ^ 24"
proof -
  have "x < 2 powr of_int (expo x + 1)" using expo_upper [of x] assms by simp
  also have "\<dots> = ulp x * 2 powr of_int 24"
    by (simp only: ulp_times_24)
  finally have "x / ulp x < 2 powr of_int 24"
    using ulp_pos [of x] by (simp add: field_simps)
  then show ?thesis by simp
qed

lemma scaled_lower:
  assumes "0 < x" and "- 126 < expo x"
  shows "2 ^ 23 \<le> x / ulp x"
proof -
  have "ulp x * 2 powr of_int 23 = 2 powr of_int (expo x)"
    by (rule ulp_times_23)
  also have "\<dots> \<le> x" using expo_lower [of x] assms by simp
  finally have "2 powr of_int 23 \<le> x / ulp x"
    using ulp_pos [of x] by (simp add: field_simps)
  then show ?thesis by simp
qed

subsection \<open>Rounding is monotone and keeps floats\<close>

lemma rnd_real_upper:
  assumes "0 < x"
  shows "rnd_real x \<le> 2 powr of_int (expo x + 1)"
proof -
  have "x / ulp x \<le> of_int (2 ^ 24)" using scaled_upper [OF assms] by simp
  then have "rne (x / ulp x) \<le> 2 ^ 24" by (rule rne_le_of_int)
  then have "of_int (rne (x / ulp x)) \<le> (2 ^ 24 :: real)"
    by (metis of_int_le_iff of_int_numeral of_int_power)
  then have "ulp x * of_int (rne (x / ulp x)) \<le> ulp x * 2 powr of_int 24"
    using ulp_pos [of x] by simp
  also have "\<dots> = 2 powr of_int (expo x + 1)"
    by (rule ulp_times_24)
  finally show ?thesis using assms by (simp add: rnd_real_def)
qed

lemma rnd_real_lower:
  assumes "0 < x" and "- 126 < expo x"
  shows "2 powr of_int (expo x) \<le> rnd_real x"
proof -
  have "of_int (2 ^ 23) \<le> x / ulp x" using scaled_lower [OF assms] by simp
  then have "2 ^ 23 \<le> rne (x / ulp x)" by (rule rne_ge_of_int)
  then have "(2 ^ 23 :: real) \<le> of_int (rne (x / ulp x))"
    by (metis of_int_le_iff of_int_numeral of_int_power)
  then have "ulp x * 2 powr of_int 23 \<le> ulp x * of_int (rne (x / ulp x))"
    using ulp_pos [of x] by simp
  moreover have "ulp x * 2 powr of_int 23 = 2 powr of_int (expo x)"
    by (rule ulp_times_23)
  ultimately show ?thesis using assms by (simp add: rnd_real_def)
qed

lemma rnd_real_nonneg:
  assumes "0 \<le> x"
  shows "0 \<le> rnd_real x"
proof (cases "x = 0")
  case True
  then show ?thesis by (simp add: rnd_real_def)
next
  case False
  have "of_int 0 \<le> x / ulp x" using assms ulp_pos [of x] by simp
  then have "0 \<le> rne (x / ulp x)" by (rule rne_ge_of_int)
  then show ?thesis using False ulp_pos [of x] by (simp add: rnd_real_def)
qed

lemma rnd_real_minus: "rnd_real (- x) = - rnd_real x"
  by (simp add: rnd_real_def ulp_minus rne_minus)

lemma rnd_real_mono_pos:
  assumes "0 < x" and "x \<le> y"
  shows "rnd_real x \<le> rnd_real y"
proof (cases "expo x = expo y")
  case True
  then have u: "ulp x = ulp y" by (simp add: ulp_def)
  have "x / ulp y \<le> y / ulp y" using assms ulp_pos [of y] by (simp add: divide_right_mono)
  then have "rne (x / ulp y) \<le> rne (y / ulp y)" by (rule rne_mono)
  then have "ulp y * of_int (rne (x / ulp y)) \<le> ulp y * of_int (rne (y / ulp y))"
    using ulp_pos [of y] by simp
  with assms u show ?thesis by (simp add: rnd_real_def)
next
  case False
  have "expo x \<le> expo y" using expo_mono [of x y] assms by simp
  with False have lt: "expo x + 1 \<le> expo y" by simp
  then have big: "- 126 < expo y" using expo_ge [of x] by linarith
  have "rnd_real x \<le> 2 powr of_int (expo x + 1)" using assms by (intro rnd_real_upper) simp
  also have "\<dots> \<le> 2 powr of_int (expo y)" using lt by (rule two_powr_int_mono)
  also have "\<dots> \<le> rnd_real y" using assms big by (intro rnd_real_lower) simp_all
  finally show ?thesis .
qed

lemma rnd_real_mono:
  assumes "x \<le> y"
  shows "rnd_real x \<le> rnd_real y"
proof -
  consider "0 < x" | "x \<le> 0" "0 \<le> y" | "y < 0" by linarith
  then show ?thesis
  proof cases
    case 1
    then show ?thesis using assms by (rule rnd_real_mono_pos)
  next
    case 2
    have "rnd_real x \<le> 0" using rnd_real_nonneg [of "- x"] 2 by (simp add: rnd_real_minus)
    also have "0 \<le> rnd_real y" using 2 by (intro rnd_real_nonneg)
    finally show ?thesis .
  next
    case 3
    have "rnd_real (- y) \<le> rnd_real (- x)" using 3 assms by (intro rnd_real_mono_pos) simp_all
    then show ?thesis by (simp add: rnd_real_minus)
  qed
qed

lemma rnd_real_exact:
  assumes x: "x = of_int m * 2 powr of_int k" and m: "\<bar>m\<bar> < 2 ^ 24" and k: "- 149 \<le> k"
  shows "rnd_real x = x"
proof (cases "x = 0")
  case True
  then show ?thesis by (simp add: rnd_real_def)
next
  case False
  have "\<bar>x\<bar> = of_int \<bar>m\<bar> * 2 powr of_int k" by (simp add: x abs_mult)
  also have "of_int \<bar>m\<bar> < (2 ^ 24 :: real)"
    using m by (metis of_int_less_iff of_int_numeral of_int_power)
  then have "of_int \<bar>m\<bar> * 2 powr of_int k < (2 powr of_int 24 :: real) * 2 powr of_int k"
    by simp
  also have "\<dots> = 2 powr of_int (24 + k)" by (simp only: two_powr_int_add)
  finally have lt: "\<bar>x\<bar> < 2 powr of_int (24 + k)" .
  have pos: "0 < \<bar>x\<bar>" using False by simp
  have "log 2 \<bar>x\<bar> < of_int (24 + k)"
    using lt pos by (simp add: log_less_iff)
  then have "\<lfloor>log 2 \<bar>x\<bar>\<rfloor> < 24 + k" by (simp add: floor_less_iff)
  with k have e: "expo x - 23 \<le> k" by (simp add: expo_def)
  define j where "j = nat (k - (expo x - 23))"
  define u where "u = ulp x"
  have upos: "0 < u" by (simp add: u_def ulp_pos)
  have kj: "k = (expo x - 23) + int j" using e by (simp add: j_def)
  have "(2::real) powr of_int k = 2 powr of_int (expo x - 23) * 2 powr of_int (int j)"
    by (subst kj) (rule two_powr_int_add)
  also have "2 powr of_int (expo x - 23) = u" by (simp add: u_def ulp_def)
  also have "2 powr of_int (int j) = (2 ^ j :: real)" by (simp add: powr_realpow)
  finally have pk: "2 powr of_int k = u * 2 ^ j" .
  have xu: "x / u = of_int (m * 2 ^ j)"
    using upos by (simp add: x pk)
  have "rne (x / u) = m * 2 ^ j" by (simp only: xu rne_of_int)
  then have "rnd_real x = u * (x / u)"
    using False xu by (simp add: rnd_real_def u_def)
  also have "\<dots> = x" using upos by simp
  finally show ?thesis .
qed

lemma rnd_real_at:
  assumes "x \<noteq> 0" and "expo x = k" and "q = 2 powr of_int (k - 23)"
  shows "rnd_real x = q * of_int (rne (x / q))"
  using assms by (simp add: rnd_real_def ulp_def)

lemma rnd_real_0: "rnd_real 0 = 0"
  by (simp add: rnd_real_def)

lemma rnd_real_1: "rnd_real 1 = 1"
  using rnd_real_exact [of 1 1 0] by simp

lemma round_f32_exact:
  assumes "x = of_int m * 2 powr of_int k" and "\<bar>m\<bar> < 2 ^ 24" and "- 149 \<le> k"
    and "\<bar>x\<bar> < 2 ^ 128"
  shows "round_f32 x = Finite x"
  using rnd_real_exact [OF assms(1-3)] assms(4) by (simp add: round_f32_def Let_def abs_less_iff)

lemma round_f32_int:
  assumes "\<bar>m\<bar> < 2 ^ 24"
  shows "round_f32 (of_int m) = Finite (of_int m)"
proof -
  have "\<bar>of_int m :: real\<bar> < 2 ^ 24"
    using assms by (metis of_int_abs of_int_less_iff of_int_numeral of_int_power)
  then have "\<bar>of_int m :: real\<bar> < 2 ^ 128" by simp
  then show ?thesis
    using round_f32_exact [of "of_int m" m 0] assms by simp
qed

lemma round_f32_numeral:
  "numeral n < (2 ^ 24 :: int) \<Longrightarrow> round_f32 (numeral n) = Finite (numeral n)"
  using round_f32_int [of "numeral n"] by simp

lemma round_f32_0: "round_f32 0 = Finite 0"
  using round_f32_int [of 0] by simp

lemma round_f32_1: "round_f32 1 = Finite 1"
  using round_f32_int [of 1] by simp

lemma round_f32_not_NaN: "round_f32 x \<noteq> NaN"
  by (simp add: round_f32_def Let_def)

lemma round_f32_mono:
  assumes "x \<le> y"
  shows "f32_le (round_f32 x) (round_f32 y)"
  using rnd_real_mono [OF assms] by (auto simp: round_f32_def Let_def f32_le_def)

lemma round_f32_unit:
  assumes "0 \<le> x" and "x \<le> 1"
  shows "\<exists>a. round_f32 x = Finite a \<and> 0 \<le> a \<and> a \<le> 1"
proof -
  have "0 \<le> rnd_real x" "rnd_real x \<le> 1"
    using rnd_real_mono [OF assms(1)] rnd_real_mono [OF assms(2)]
    by (simp_all add: rnd_real_0 rnd_real_1)
  then show ?thesis by (simp add: round_f32_def Let_def)
qed

lemma f32_le_refl: "a \<noteq> NaN \<Longrightarrow> f32_le a a"
  by (cases a) (simp_all add: f32_le_def)

lemma f32_add_mono:
  assumes "f32_le p q"
  shows "f32_le (f32_add (Finite t) p) (f32_add (Finite t) q)"
proof (cases p)
  case (Finite x)
  show ?thesis
  proof (cases q)
    case (Finite y)
    with \<open>p = Finite x\<close> assms have "x \<le> y" by (simp add: f32_le_def)
    then have "t + x \<le> t + y" by simp
    then show ?thesis
      using \<open>p = Finite x\<close> \<open>q = Finite y\<close> by (simp add: round_f32_mono)
  next
    case PInf
    then show ?thesis
      using \<open>p = Finite x\<close> round_f32_not_NaN [of "t + x"]
      by (cases "round_f32 (t + x)") (simp_all add: f32_le_def)
  next
    case NInf
    with \<open>p = Finite x\<close> assms show ?thesis by (simp add: f32_le_def)
  next
    case NaN
    with assms show ?thesis by (simp add: f32_le_def)
  qed
next
  case PInf
  with assms show ?thesis by (cases q) (simp_all add: f32_le_def)
next
  case NInf
  show ?thesis
  proof (cases q)
    case (Finite y)
    then show ?thesis
      using \<open>p = NInf\<close> round_f32_not_NaN [of "t + y"]
      by (cases "round_f32 (t + y)") (simp_all add: f32_le_def)
  next
    case NaN
    with assms show ?thesis by (simp add: f32_le_def)
  qed (simp_all add: \<open>p = NInf\<close> f32_le_def)
next
  case NaN
  with assms show ?thesis by (simp add: f32_le_def)
qed

subsection \<open>The float constants of the source\<close>

lemma c06: "rnd_real 0.6 = 10066330 / 2 ^ 24"
proof -
  have e: "expo 0.6 = - 1"
    by (rule expo_eqI) (simp_all add: powr_neg_numeral)
  show ?thesis
    by (subst rnd_real_at [OF _ e, of "1 / 2 ^ 24"]) (simp_all add: powr_neg_numeral rne_def Let_def)
qed

lemma c08: "rnd_real 0.8 = 13421773 / 2 ^ 24"
proof -
  have e: "expo 0.8 = - 1"
    by (rule expo_eqI) (simp_all add: powr_neg_numeral)
  show ?thesis
    by (subst rnd_real_at [OF _ e, of "1 / 2 ^ 24"]) (simp_all add: powr_neg_numeral rne_def Let_def)
qed

lemma c_bounds: "0 < rnd_real 0.6" "rnd_real 0.6 < 1" "0 < rnd_real 0.8" "rnd_real 0.8 < 1"
  unfolding c06 c08 by simp_all

lemma float_0_1: "round_f32 0.1 = Finite f_0_1"
proof -
  have e: "expo 0.1 = - 4"
    by (rule expo_eqI) (simp_all add: powr_neg_numeral)
  have "rnd_real 0.1 = 13421773 / 2 ^ 27"
    by (subst rnd_real_at [OF _ e, of "1 / 2 ^ 27"]) (simp_all add: powr_neg_numeral rne_def Let_def)
  then show ?thesis by (simp add: round_f32_def Let_def f_0_1_def)
qed

lemma float_0_3: "round_f32 0.3 = Finite f_0_3"
proof -
  have e: "expo 0.3 = - 2"
    by (rule expo_eqI) (simp_all add: powr_neg_numeral)
  have "rnd_real 0.3 = 10066330 / 2 ^ 25"
    by (subst rnd_real_at [OF _ e, of "1 / 2 ^ 25"]) (simp_all add: powr_neg_numeral rne_def Let_def)
  then show ?thesis by (simp add: round_f32_def Let_def f_0_3_def)
qed

lemma float_0_8: "round_f32 0.8 = Finite f_0_8"
  using c08 by (simp add: round_f32_def Let_def f_0_8_def)

lemma float_60th: "round_f32 (1 / 60) = Finite f_60th"
proof -
  have e: "expo (1 / 60) = - 6"
    by (rule expo_eqI) (simp_all add: powr_neg_numeral)
  have "rnd_real (1 / 60) = 8947849 / 2 ^ 29"
    by (subst rnd_real_at [OF _ e, of "1 / 2 ^ 29"]) (simp_all add: powr_neg_numeral rne_def Let_def)
  then show ?thesis by (simp add: round_f32_def Let_def f_60th_def)
qed

section \<open>The smoothing filter over binary32\<close>

lemma Smooth32_weight:
  assumes "0 \<le> dt" and "0 < b" and "b < 1"
  shows "\<exists>a. powf32 b (f32_mul (Finite dt) (Finite 60)) = Finite a \<and> 0 \<le> a \<and> a \<le> 1"
proof -
  have nonneg: "0 \<le> rnd_real (dt * 60)"
    using rnd_real_mono [of 0 "dt * 60"] assms(1) by (simp add: rnd_real_0)
  show ?thesis
  proof (cases "round_f32 (dt * 60)")
    case (Finite y)
    then have "0 \<le> y" using nonneg by (simp add: round_f32_def Let_def split: if_splits)
    then have "0 \<le> b powr y" "b powr y \<le> 1"
      using assms by (simp_all add: powr_le1)
    from round_f32_unit [OF this] Finite show ?thesis by simp
  next
    case PInf
    with assms show ?thesis by simp
  next
    case NInf
    then show ?thesis using nonneg by (simp add: round_f32_def Let_def split: if_splits)
  next
    case NaN
    then show ?thesis using round_f32_not_NaN by blast
  qed
qed

lemma Lerp32_between:
  assumes t: "round_f32 target = Finite target"
    and d: "f32_sub (Finite prev) (Finite target) = Finite d"
    and a: "0 \<le> a" "a \<le> 1"
  shows "(f32_le (Finite target) (Lerp32 (Finite target) (Finite prev) (Finite a))
          \<and> f32_le (Lerp32 (Finite target) (Finite prev) (Finite a))
                    (Lerp32 (Finite target) (Finite prev) (Finite 1)))
       \<or> (f32_le (Lerp32 (Finite target) (Finite prev) (Finite 1))
                 (Lerp32 (Finite target) (Finite prev) (Finite a))
          \<and> f32_le (Lerp32 (Finite target) (Finite prev) (Finite a)) (Finite target))"
proof -
  have La: "Lerp32 (Finite target) (Finite prev) (Finite a)
      = f32_add (Finite target) (round_f32 (a * d))"
    and L1: "Lerp32 (Finite target) (Finite prev) (Finite 1)
      = f32_add (Finite target) (round_f32 d)"
    and L0: "Finite target = f32_add (Finite target) (round_f32 0)"
    by (simp_all add: Lerp32_def d round_f32_0 t)
  show ?thesis
  proof (cases "0 \<le> d")
    case True
    then have "0 \<le> a * d" "a * d \<le> d" using a by (simp_all add: mult_left_le_one_le)
    then have "f32_le (round_f32 0) (round_f32 (a * d))"
      "f32_le (round_f32 (a * d)) (round_f32 d)"
      by (simp_all add: round_f32_mono)
    then have "f32_le (f32_add (Finite target) (round_f32 0))
                 (f32_add (Finite target) (round_f32 (a * d)))"
      "f32_le (f32_add (Finite target) (round_f32 (a * d)))
                 (f32_add (Finite target) (round_f32 d))"
      by (simp_all only: f32_add_mono)
    then show ?thesis by (simp only: La L1 L0 [symmetric]) blast
  next
    case False
    then have "a * d \<le> 0" "d \<le> a * d" using a by (simp_all add: mult_le_0_iff mult_left_le_one_le)
    then have "f32_le (round_f32 (a * d)) (round_f32 0)"
      "f32_le (round_f32 d) (round_f32 (a * d))"
      by (simp_all add: round_f32_mono)
    then have "f32_le (f32_add (Finite target) (round_f32 (a * d)))
                 (f32_add (Finite target) (round_f32 0))"
      "f32_le (f32_add (Finite target) (round_f32 d))
                 (f32_add (Finite target) (round_f32 (a * d)))"
      by (simp_all only: f32_add_mono)
    then show ?thesis by (simp only: La L1 L0 [symmetric]) blast
  qed
qed

lemma weight_at_0: "powf32 (rnd_real 0.6) (f32_mul (Finite 0) (Finite 60)) = Finite 1"
  "powf32 (rnd_real 0.8) (f32_mul (Finite 0) (Finite 60)) = Finite 1"
  unfolding c06 c08 by (simp_all add: round_f32_0 round_f32_1)

lemma Smooth32_at_0:
  "Smooth32 x0 x1 (Finite 0) = (Lerp32 x1 x0 (Finite 1), Lerp32 x1 x0 (Finite 1))"
  by (simp only: Smooth32_def weight_at_0 Let_def if_cancel)

lemma Smooth32_rest:
  assumes "0 \<le> dt"
  shows "Smooth32 (Finite 0) (Finite 0) (Finite dt) = (Finite 0, Finite 0)"
proof -
  obtain a where a: "powf32 (rnd_real 0.8) (f32_mul (Finite dt) (Finite 60)) = Finite a"
    using Smooth32_weight [OF assms c_bounds(3) c_bounds(4)] by blast
  have "Lerp32 (Finite 0) (Finite 0) (Finite a) = Finite 0"
    by (simp add: Lerp32_def f32_sub_def round_f32_0)
  then show ?thesis
    by (simp only: Smooth32_def a Let_def fabsf32.simps f32_lt.simps abs_zero less_irrefl if_False)
qed

lemma weight_60th: "powf32 (rnd_real 0.8) (f32_mul (Finite f_60th) (Finite 60)) = Finite f_0_8"
proof -
  have e: "expo (f_60th * 60) = 0"
    by (rule expo_eqI) (simp_all add: f_60th_def)
  have "rnd_real (f_60th * 60) = 1"
    by (subst rnd_real_at [OF _ e, of "1 / 2 ^ 23"])
       (simp_all add: powr_neg_numeral rne_def Let_def f_60th_def)
  then have m: "f32_mul (Finite f_60th) (Finite 60) = Finite 1"
    by (simp add: round_f32_def Let_def)
  have k: "round_f32 f_0_8 = Finite f_0_8"
    by (rule round_f32_exact [of _ "13421773" "- 24"]) (simp_all add: f_0_8_def powr_neg_numeral)
  have "rnd_real 0.8 = f_0_8" by (simp only: c08 f_0_8_def)
  moreover have "f_0_8 powr 1 = f_0_8" by (simp add: f_0_8_def)
  ultimately show ?thesis by (simp only: m powf32.simps k)
qed

lemma Smooth32_release:
  "Smooth32 (Finite 1) (Finite 0) (Finite f_60th) = (Finite f_0_8, Finite f_0_8)"
proof -
  have k: "round_f32 f_0_8 = Finite f_0_8"
    by (rule round_f32_exact [of _ "13421773" "- 24"]) (simp_all add: f_0_8_def powr_neg_numeral)
  have "Lerp32 (Finite 0) (Finite 1) (Finite f_0_8) = Finite f_0_8"
    by (simp add: Lerp32_def f32_sub_def round_f32_1 k)
  moreover have "\<not> f32_lt (fabsf32 (Finite 1)) (fabsf32 (Finite 0))" by simp
  ultimately show ?thesis
    by (simp only: Smooth32_def weight_60th Let_def if_False)
qed

lemma Lerp32_0_3_0_1:
  "Lerp32 (Finite f_0_3) (Finite f_0_1) (Finite 1) = Finite (13421772 / 2 ^ 27)"
proof -
  define d :: real where "d = - (13421774 / 2 ^ 26)"
  have e: "expo (f_0_1 - f_0_3) = - 3"
    by (rule expo_eqI) (simp_all add: powr_neg_numeral f_0_1_def f_0_3_def)
  have "rnd_real (f_0_1 - f_0_3) = d"
    by (subst rnd_real_at [OF _ e, of "1 / 2 ^ 26"])
       (simp_all add: powr_neg_numeral rne_def Let_def f_0_1_def f_0_3_def d_def)
  moreover have "\<bar>d\<bar> < 2 ^ 128" by (simp add: d_def)
  ultimately have sub: "f32_sub (Finite f_0_1) (Finite f_0_3) = Finite d"
    by (simp add: f32_sub_def round_f32_def Let_def abs_less_iff)
  have "round_f32 d = Finite d"
    by (rule round_f32_exact [of _ "- 13421774" "- 26"]) (simp_all add: powr_neg_numeral d_def)
  then have mul: "f32_mul (Finite 1) (Finite d) = Finite d" by simp
  have "round_f32 (13421772 / 2 ^ 27) = Finite (13421772 / 2 ^ 27)"
    by (rule round_f32_exact [of _ "13421772" "- 27"]) (simp_all add: powr_neg_numeral)
  moreover have "f_0_3 + d = 13421772 / 2 ^ 27" by (simp add: f_0_3_def d_def)
  ultimately have add: "f32_add (Finite f_0_3) (Finite d) = Finite (13421772 / 2 ^ 27)"
    by (simp only: f32_add.simps)
  show ?thesis by (simp only: Lerp32_def sub mul add)
qed

lemma Lerp32_1e8_1:
  "Lerp32 (Finite 100000000) (Finite 1) (Finite 1) = Finite 0"
proof -
  have e: "expo (1 - 100000000) = 26"
    by (rule expo_eqI) simp_all
  have "rnd_real (1 - 100000000) = - 100000000"
    by (subst rnd_real_at [OF _ e, of 8]) (simp_all add: rne_def Let_def)
  then have sub: "f32_sub (Finite 1) (Finite 100000000) = Finite (- 100000000)"
    by (simp add: f32_sub_def round_f32_def Let_def)
  have "round_f32 (- 100000000) = Finite (- 100000000)"
    using round_f32_exact [of "- 100000000" "- 12500000" 3] by simp
  then have mul: "f32_mul (Finite 1) (Finite (- 100000000)) = Finite (- 100000000)" by simp
  have add: "f32_add (Finite 100000000) (Finite (- 100000000)) = Finite 0"
    by (simp add: round_f32_0)
  show ?thesis by (simp only: Lerp32_def sub mul add)
qed

text \<open>
  Claim C3, as amended. For every \<open>dt \<ge> 0\<close> and all floats \<open>prev\<close> and \<open>target\<close> whose
  difference does not overflow, the result of the filter lies between \<open>target\<close> and the
  value \<open>r0\<close> the filter returns at \<open>dt = 0\<close>, both included, where
  \<open>r0 = target + 1 * (prev - target)\<close> with each operation rounded; both references hold
  the result. \<open>r0\<close> is \<open>prev\<close> when \<open>target = 0\<close> and when \<open>prev = target\<close>. (In general
  \<open>r0\<close> differs from \<open>prev\<close> by the rounding of the subtraction and of the addition, so
  the result can leave the interval between \<open>prev\<close> and \<open>target\<close>.)
\<close>

theorem Smooth32_between:
  assumes "round_f32 prev = Finite prev" and "round_f32 target = Finite target"
    and "0 \<le> dt" and "is_finite (f32_sub (Finite prev) (Finite target))"
  shows "snd (Smooth32 (Finite prev) (Finite target) (Finite dt))
           = fst (Smooth32 (Finite prev) (Finite target) (Finite dt))
       \<and> fst (Smooth32 (Finite prev) (Finite target) (Finite 0))
           = f32_add (Finite target) (f32_mul (Finite 1) (f32_sub (Finite prev) (Finite target)))
       \<and> ((f32_le (Finite target) (fst (Smooth32 (Finite prev) (Finite target) (Finite dt)))
            \<and> f32_le (fst (Smooth32 (Finite prev) (Finite target) (Finite dt)))
                      (fst (Smooth32 (Finite prev) (Finite target) (Finite 0))))
          \<or> (f32_le (fst (Smooth32 (Finite prev) (Finite target) (Finite 0)))
                     (fst (Smooth32 (Finite prev) (Finite target) (Finite dt)))
            \<and> f32_le (fst (Smooth32 (Finite prev) (Finite target) (Finite dt))) (Finite target)))
       \<and> fst (Smooth32 (Finite prev) (Finite 0) (Finite 0)) = Finite prev
       \<and> fst (Smooth32 (Finite target) (Finite target) (Finite 0)) = Finite target"
proof -
  let ?P = "Finite prev" and ?T = "Finite target"
  have sym: "snd (Smooth32 ?P ?T (Finite dt)) = fst (Smooth32 ?P ?T (Finite dt))"
    by (simp add: Smooth32_def Let_def)
  have zero: "fst (Smooth32 ?P ?T (Finite 0)) = Lerp32 ?T ?P (Finite 1)"
    by (simp only: Smooth32_at_0 fst_conv)
  obtain d where d: "f32_sub ?P ?T = Finite d"
    using assms(4) by (cases "f32_sub ?P ?T") simp_all
  obtain a6 where a6: "powf32 (rnd_real 0.6) (f32_mul (Finite dt) (Finite 60)) = Finite a6"
      "0 \<le> a6" "a6 \<le> 1"
    using Smooth32_weight [OF assms(3) c_bounds(1) c_bounds(2)] by blast
  obtain a8 where a8: "powf32 (rnd_real 0.8) (f32_mul (Finite dt) (Finite 60)) = Finite a8"
      "0 \<le> a8" "a8 \<le> 1"
    using Smooth32_weight [OF assms(3) c_bounds(3) c_bounds(4)] by blast
  have "fst (Smooth32 ?P ?T (Finite dt)) = Lerp32 ?T ?P (Finite a6)
      \<or> fst (Smooth32 ?P ?T (Finite dt)) = Lerp32 ?T ?P (Finite a8)"
    unfolding Smooth32_def a6(1) a8(1) Let_def fst_conv by auto
  then have between:
    "(f32_le ?T (fst (Smooth32 ?P ?T (Finite dt)))
        \<and> f32_le (fst (Smooth32 ?P ?T (Finite dt))) (fst (Smooth32 ?P ?T (Finite 0))))
     \<or> (f32_le (fst (Smooth32 ?P ?T (Finite 0))) (fst (Smooth32 ?P ?T (Finite dt)))
        \<and> f32_le (fst (Smooth32 ?P ?T (Finite dt))) ?T)"
    using Lerp32_between [OF assms(2) d a6(2) a6(3)] Lerp32_between [OF assms(2) d a8(2) a8(3)]
    unfolding zero by metis
  have rel: "fst (Smooth32 ?P (Finite 0) (Finite 0)) = ?P"
    using assms(1) by (simp add: Smooth32_at_0 Lerp32_def f32_sub_def)
  have same: "fst (Smooth32 ?T ?T (Finite 0)) = ?T"
    using assms(2) by (simp add: Smooth32_at_0 Lerp32_def f32_sub_def round_f32_0)
  from sym zero between rel same show ?thesis
    by (simp only: Lerp32_def)
qed

theorem Smooth32_between_witness:
  "round_f32 1 = Finite 1 \<and> round_f32 0 = Finite 0
   \<and> round_f32 (1 / 60) = Finite (8947849 / 2 ^ 29) \<and> (0::real) \<le> 8947849 / 2 ^ 29
   \<and> is_finite (f32_sub (Finite 1) (Finite 0))
   \<and> fst (Smooth32 (Finite 1) (Finite 0) (Finite 0)) = Finite 1
   \<and> fst (Smooth32 (Finite 1) (Finite 0) (Finite (8947849 / 2 ^ 29))) = Finite (13421773 / 2 ^ 24)
   \<and> f32_le (Finite 0) (fst (Smooth32 (Finite 1) (Finite 0) (Finite (8947849 / 2 ^ 29))))
   \<and> f32_le (fst (Smooth32 (Finite 1) (Finite 0) (Finite (8947849 / 2 ^ 29)))) (Finite 1)"
proof -
  have h: "round_f32 1 = Finite 1" "round_f32 0 = Finite 0" "(0::real) \<le> f_60th"
    "is_finite (f32_sub (Finite 1) (Finite 0))"
    by (simp_all add: round_f32_1 round_f32_0 f32_sub_def f_60th_def)
  note t = Smooth32_between [OF h]
  from t have z: "fst (Smooth32 (Finite 1) (Finite 0) (Finite 0)) = Finite 1" by blast
  have v: "fst (Smooth32 (Finite 1) (Finite 0) (Finite f_60th)) = Finite f_0_8"
    by (simp only: Smooth32_release fst_conv)
  have b: "f32_le (Finite 0) (Finite f_0_8)" "f32_le (Finite f_0_8) (Finite 1)"
    by (simp_all add: f32_le_def f_0_8_def)
  from h z v b float_60th show ?thesis
    unfolding f_60th_def f_0_8_def by (simp only:) 
qed

text \<open>
  Claim C3 as stated fails on the code. At \<open>dt = 0\<close>, with \<open>prev\<close> the float nearest
  \<open>0.1\<close> and \<open>target\<close> the float nearest \<open>0.3\<close>, the filter returns the float just below
  \<open>prev\<close>: not \<open>prev\<close>, and outside the interval from \<open>prev\<close> to \<open>target\<close>. With
  \<open>prev = 1\<close> and \<open>target = 100000000\<close> it returns \<open>0\<close>.
\<close>

theorem Smooth32_counterexample:
  "round_f32 0.1 = Finite (13421773 / 2 ^ 27)
   \<and> round_f32 0.3 = Finite (10066330 / 2 ^ 25)
   \<and> Smooth32 (Finite (13421773 / 2 ^ 27)) (Finite (10066330 / 2 ^ 25)) (Finite 0)
       = (Finite (13421772 / 2 ^ 27), Finite (13421772 / 2 ^ 27))
   \<and> f32_lt (Finite (13421772 / 2 ^ 27)) (Finite (13421773 / 2 ^ 27))
   \<and> f32_lt (Finite (13421773 / 2 ^ 27)) (Finite (10066330 / 2 ^ 25))
   \<and> round_f32 100000000 = Finite 100000000
   \<and> Smooth32 (Finite 1) (Finite 100000000) (Finite 0) = (Finite 0, Finite 0)
   \<and> f32_lt (Finite 0) (Finite 1)"
proof -
  have a: "Smooth32 (Finite f_0_1) (Finite f_0_3) (Finite 0)
       = (Finite (13421772 / 2 ^ 27), Finite (13421772 / 2 ^ 27))"
    by (simp only: Smooth32_at_0 Lerp32_0_3_0_1)
  have b: "Smooth32 (Finite 1) (Finite 100000000) (Finite 0) = (Finite 0, Finite 0)"
    by (simp only: Smooth32_at_0 Lerp32_1e8_1)
  have c: "f32_lt (Finite (13421772 / 2 ^ 27)) (Finite (13421773 / 2 ^ 27))"
    "f32_lt (Finite (13421773 / 2 ^ 27)) (Finite (10066330 / 2 ^ 25))"
    "f32_lt (Finite 0) (Finite 1)"
    by simp_all
  have d: "round_f32 100000000 = Finite 100000000"
    using round_f32_exact [of 100000000 12500000 3] by simp
  from a b c d float_0_1 float_0_3 show ?thesis
    unfolding f_0_1_def f_0_3_def by blast
qed

section \<open>The pitch over binary32\<close>

lemma clamp32_range: "clamp32 v (Finite (- 90)) (Finite 90) = NaN
    \<or> pitch_in_range (clamp32 v (Finite (- 90)) (Finite 90))"
  by (cases v) (auto simp: clamp32_def pitch_in_range_def f32_le_def)

lemma clamp32_not_NaN: "v \<noteq> NaN \<Longrightarrow> pitch_in_range (clamp32 v (Finite (- 90)) (Finite 90))"
  by (cases v) (auto simp: clamp32_def pitch_in_range_def f32_le_def)

lemma Update32_fst: "fst (Update32 ext e s) =
   accumulate32
     (add_mouse_motion32 e (snd (apply_smoothing32 (DeltaTime32 e) (fst s, read_input32 e))))
     (fst (apply_smoothing32 (DeltaTime32 e) (fst s, read_input32 e)))"
  by (simp add: Update32_def Let_def)

lemma apply_smoothing32_pitch:
  "m_Pitch32 (fst (apply_smoothing32 dt (c, l))) = m_Pitch32 c"
  "m_InverseY32 (fst (apply_smoothing32 dt (c, l))) = m_InverseY32 c"
  by (simp_all add: apply_smoothing32_def Let_def)

lemma Update32_pitch:
  "m_Pitch32 (fst (Update32 ext e s)) =
     clamp32 (f32_add (m_Pitch32 (fst s))
                (f32_mul (pitch_delta32 e (fst s))
                   (if m_InverseY32 (fst s) then Finite 1 else Finite (- 1))))
       (Finite (- 90)) (Finite 90)"
  by (simp add: Update32_fst accumulate32_def Let_def apply_smoothing32_pitch pitch_delta32_def)

lemma Update32_pitch_range:
  "m_Pitch32 (fst (Update32 ext e s)) = NaN \<or> pitch_in_range (m_Pitch32 (fst (Update32 ext e s)))"
  by (simp only: Update32_pitch clamp32_range)

lemma f32_mul_sign_not_NaN:
  "p \<noteq> NaN \<Longrightarrow> f32_mul p (if b then Finite 1 else Finite (- 1)) \<noteq> NaN"
  by (cases p) (simp_all add: round_f32_not_NaN)

lemma f32_add_finite_not_NaN: "is_finite a \<Longrightarrow> q \<noteq> NaN \<Longrightarrow> f32_add a q \<noteq> NaN"
  by (cases a; cases q) (simp_all add: round_f32_not_NaN)

lemma fresh32_fst:
  "m_Pitch32 (fst fresh32) = Finite 0" "m_PreviousPitch32 (fst fresh32) = Finite 0"
  "m_InverseY32 (fst fresh32) = True"
  by (simp_all add: fresh32_def CameraController32_new_def ResetView32_def Let_def)

text \<open>
  Claim C1, as amended. For every sequence of \<open>Update\<close> calls after construction or
  after \<open>ResetView\<close>, whatever the axis values, button states, axis-inversion flag and
  \<open>DeltaTime\<close> of each frame, the absolute pitch stored in the controller after every
  \<open>Update\<close> lies in \<open>[-90, 90]\<close> or is NaN; and an \<open>Update\<close> that starts from a finite
  pitch and whose pitch delta at line 134 is not NaN leaves the pitch in \<open>[-90, 90]\<close>.
\<close>

theorem pitch32_in_range_or_NaN:
  "(\<forall>s' \<in> set (run32 ext es (ResetView32 ext s)).
       m_Pitch32 (fst s') = NaN \<or> pitch_in_range (m_Pitch32 (fst s')))
   \<and> (\<forall>s' \<in> set (run32 ext es (CameraController32_new ext camera)).
       m_Pitch32 (fst s') = NaN \<or> pitch_in_range (m_Pitch32 (fst s')))
   \<and> (is_finite (m_Pitch32 c) \<and> pitch_delta32 e c \<noteq> NaN
        \<longrightarrow> pitch_in_range (m_Pitch32 (fst (Update32 ext e (c, k)))))"
proof -
  have run: "\<forall>s' \<in> set (run32 ext es s0).
       m_Pitch32 (fst s') = NaN \<or> pitch_in_range (m_Pitch32 (fst s'))" for s0
  proof (induction es arbitrary: s0)
    case Nil
    show ?case by simp
  next
    case (Cons be es)
    show ?case
      using Cons.IH Update32_pitch_range by (simp add: Let_def)
  qed
  have step: "pitch_in_range (m_Pitch32 (fst (Update32 ext e (c, k))))"
    if "is_finite (m_Pitch32 c)" and "pitch_delta32 e c \<noteq> NaN"
  proof -
    have "f32_add (m_Pitch32 c)
            (f32_mul (pitch_delta32 e c) (if m_InverseY32 c then Finite 1 else Finite (- 1))) \<noteq> NaN"
      using that by (intro f32_add_finite_not_NaN f32_mul_sign_not_NaN)
    then show ?thesis by (simp add: Update32_pitch clamp32_not_NaN)
  qed
  from run step show ?thesis by blast
qed

lemma fling_raw: "loc_pitch32 (read_input32 fling_frame) = Finite 0"
  "rotationScale32 (read_input32 fling_frame) = Finite 0.5"
  by (simp_all add: read_input32_def fling_frame_def idle32_def LOOK_SENSITIVITY32_def Let_def
        round_f32_0)

lemma fling_mouse:
  "f32_sub (Finite 0) (f32_mul (f32_mul (Finite (- 4096)) MOUSE_SENSITIVITY32) (Finite 0.5))
     = Finite fling_delta"
proof -
  have a: "round_f32 (- 4096 * f_0_1) = Finite (- 4096 * f_0_1)"
    by (rule round_f32_exact [of _ "- 13421773" "- 15"]) (simp_all add: f_0_1_def powr_neg_numeral)
  have b: "round_f32 (- 4096 * f_0_1 * 0.5) = Finite (- fling_delta)"
  proof -
    have "round_f32 (- fling_delta) = Finite (- fling_delta)"
      by (rule round_f32_exact [of _ "- 13421773" "- 16"])
         (simp_all add: fling_delta_def powr_neg_numeral)
    moreover have "- 4096 * f_0_1 * 0.5 = - fling_delta" by (simp add: f_0_1_def fling_delta_def)
    ultimately show ?thesis by (simp only:)
  qed
  have c: "round_f32 (0 + - (- fling_delta)) = Finite fling_delta"
  proof -
    have "round_f32 fling_delta = Finite fling_delta"
      by (rule round_f32_exact [of _ "13421773" "- 16"])
         (simp_all add: fling_delta_def powr_neg_numeral)
    then show ?thesis by simp
  qed
  show ?thesis
    by (simp only: MOUSE_SENSITIVITY32_def float_0_1 f32_mul.simps a b f32_sub_def f32_neg.simps
          f32_add.simps c)
qed

lemma fling_delta32: "pitch_delta32 fling_frame (fst fresh32) = Finite fling_delta"
proof -
  have lmb: "GetBool32 (m_KMInput32 fling_frame) LMB"
    and dlt: "GetFloatDelta32 (m_KMInput32 fling_frame) Pitch = Finite (- 4096)"
    and dt: "DeltaTime32 fling_frame = Finite (1 / 64)"
    by (simp_all add: fling_frame_def idle32_def)
  have sm: "Smooth32 (Finite 0) (Finite 0) (Finite (1 / 64)) = (Finite 0, Finite 0)"
    by (rule Smooth32_rest) simp
  have "pitch_delta32 fling_frame (fst fresh32)
      = f32_sub (snd (Smooth32 (m_PreviousPitch32 (fst fresh32))
                        (loc_pitch32 (read_input32 fling_frame)) (DeltaTime32 fling_frame)))
          (f32_mul (f32_mul (GetFloatDelta32 (m_KMInput32 fling_frame) Pitch) MOUSE_SENSITIVITY32)
             (rotationScale32 (read_input32 fling_frame)))"
    using lmb by (simp add: pitch_delta32_def add_mouse_motion32_def apply_smoothing32_def Let_def)
  also have "\<dots> = Finite fling_delta"
    by (simp only: fresh32_fst fling_raw dlt dt sm snd_conv fling_mouse)
  finally show ?thesis .
qed

lemma fling_pitch: "m_Pitch32 (fst (Update32 sample_extern32 fling_frame fresh32)) = Finite 90"
proof -
  have k: "round_f32 fling_delta = Finite fling_delta"
    by (rule round_f32_exact [of _ "13421773" "- 16"])
       (simp_all add: fling_delta_def powr_neg_numeral)
  have "f32_add (Finite 0) (f32_mul (Finite fling_delta) (Finite 1)) = Finite fling_delta"
    by (simp add: k)
  moreover have "clamp32 (Finite fling_delta) (Finite (- 90)) (Finite 90) = Finite 90"
    by (simp add: clamp32_def fling_delta_def)
  ultimately show ?thesis
    by (simp only: Update32_pitch fling_delta32 fresh32_fst if_True)
qed

theorem pitch32_in_range_or_NaN_witness:
  "Update32 sample_extern32 fling_frame fresh32
     \<in> set (run32 sample_extern32 [(True, fling_frame)] fresh32)
   \<and> is_finite (m_Pitch32 (fst fresh32))
   \<and> pitch_delta32 fling_frame (fst fresh32) = Finite (13421773 / 2 ^ 16)
   \<and> m_Pitch32 (fst (Update32 sample_extern32 fling_frame fresh32)) = Finite 90
   \<and> pitch_in_range (m_Pitch32 (fst (Update32 sample_extern32 fling_frame fresh32)))"
proof -
  have flag: "(fst fresh32)\<lparr>m_InverseY32 := True\<rparr> = fst fresh32"
    by (simp add: fresh32_def CameraController32_new_def ResetView32_def Let_def)
  have mem: "Update32 sample_extern32 fling_frame fresh32
     \<in> set (run32 sample_extern32 [(True, fling_frame)] fresh32)"
    by (simp add: Let_def flag)
  have fin: "is_finite (m_Pitch32 (fst fresh32))" by (simp add: fresh32_fst)
  have dl: "pitch_delta32 fling_frame (fst fresh32) \<noteq> NaN" by (simp add: fling_delta32)
  note t = pitch32_in_range_or_NaN
             [of sample_extern32 "[(True, fling_frame)]" _ origin_camera32 "fst fresh32"
                 fling_frame]
  from t have all: "\<forall>s' \<in> set (run32 sample_extern32 [(True, fling_frame)] fresh32).
       m_Pitch32 (fst s') = NaN \<or> pitch_in_range (m_Pitch32 (fst s'))"
    unfolding fresh32_def by blast
  from t fin dl have "pitch_in_range (m_Pitch32 (fst (Update32 sample_extern32 fling_frame
      (fst fresh32, origin_camera32))))" by blast
  then have rng: "pitch_in_range (m_Pitch32 (fst (Update32 sample_extern32 fling_frame fresh32)))"
    by (simp add: Update32_pitch)
  from mem fin rng fling_pitch fling_delta32 [unfolded fling_delta_def] show ?thesis by blast
qed

text \<open>
  Claim C1 as stated fails on the code. From a fresh controller, one \<open>Update\<close> with the
  pad's pitch axis at \<open>1\<close> and a \<open>DeltaTime\<close> of \<open>2\<close> to the \<open>123\<close>: the raw pitch
  \<open>1 * 180 * 0.5 * DeltaTime\<close> overflows to \<open>+inf\<close>, the weight \<open>powf(0.6, +inf)\<close> is
  \<open>0\<close>, so \<open>Smooth\<close> computes \<open>inf + 0 * (0 - inf)\<close>, which is NaN; the sum into the
  pitch is NaN and \<open>std::clamp\<close> returns it, since both of its comparisons are false.
\<close>

lemma overflow_90: "round_f32 (90 * huge_dt) = PInf"
proof -
  have "rnd_real (90 * huge_dt) = 90 * huge_dt"
    by (rule rnd_real_exact [of _ 90 123]) (simp_all add: huge_dt_def)
  then show ?thesis by (simp add: round_f32_def Let_def huge_dt_def)
qed

lemma overflow_60: "round_f32 (huge_dt * 60) = PInf"
proof -
  have "rnd_real (huge_dt * 60) = huge_dt * 60"
    by (rule rnd_real_exact [of _ 60 123]) (simp_all add: huge_dt_def)
  then show ?thesis by (simp add: round_f32_def Let_def huge_dt_def)
qed

lemma huge_dt_float: "round_f32 huge_dt = Finite huge_dt"
  by (rule round_f32_exact [of _ 1 123]) (simp_all add: huge_dt_def)

lemma overflow_pitch_raw: "loc_pitch32 (read_input32 overflow_frame) = PInf"
proof -
  have "f32_mul (f32_mul (f32_mul (Finite 1) (Finite 180)) (Finite 0.5)) (Finite huge_dt) = PInf"
    by (simp add: round_f32_numeral overflow_90)
  then show ?thesis
    by (simp add: read_input32_def overflow_frame_def idle32_def LOOK_SENSITIVITY32_def Let_def)
qed

lemma weight_overflow:
  "powf32 (rnd_real 0.6) (f32_mul (Finite huge_dt) (Finite 60)) = Finite 0"
  unfolding c06 by (simp add: overflow_60)

lemma Smooth32_overflow: "Smooth32 (Finite 0) PInf (Finite huge_dt) = (NaN, NaN)"
proof -
  have "Lerp32 PInf (Finite 0) (Finite 0) = NaN"
    by (simp add: Lerp32_def f32_sub_def)
  then show ?thesis
    by (simp only: Smooth32_def weight_overflow Let_def fabsf32.simps f32_lt.simps if_True)
qed

lemma overflow_delta: "pitch_delta32 overflow_frame (fst fresh32) = NaN"
proof -
  have "\<not> GetBool32 (m_KMInput32 overflow_frame) LMB"
    by (simp add: overflow_frame_def idle32_def)
  then have "pitch_delta32 overflow_frame (fst fresh32)
      = snd (Smooth32 (m_PreviousPitch32 (fst fresh32)) (loc_pitch32 (read_input32 overflow_frame))
               (DeltaTime32 overflow_frame))"
    by (simp add: pitch_delta32_def add_mouse_motion32_def apply_smoothing32_def Let_def)
  also have "\<dots> = NaN"
  proof -
    have "DeltaTime32 overflow_frame = Finite huge_dt" by (simp add: overflow_frame_def)
    then show ?thesis
      by (simp only: fresh32_fst overflow_pitch_raw Smooth32_overflow snd_conv)
  qed
  finally show ?thesis .
qed

theorem pitch32_NaN_counterexample:
  "GetFloat32 (m_PadInput32 overflow_frame) Pitch = Finite 1
   \<and> DeltaTime32 overflow_frame = Finite (2 ^ 123)
   \<and> round_f32 (2 ^ 123) = Finite (2 ^ 123)
   \<and> m_Pitch32 (fst (Update32 sample_extern32 overflow_frame fresh32)) = NaN
   \<and> \<not> pitch_in_range (m_Pitch32 (fst (Update32 sample_extern32 overflow_frame fresh32)))"
proof -
  have p: "m_Pitch32 (fst (Update32 sample_extern32 overflow_frame fresh32)) = NaN"
    by (simp add: Update32_pitch overflow_delta fresh32_fst clamp32_def)
  have "\<not> pitch_in_range NaN" by (simp add: pitch_in_range_def f32_le_def)
  with p huge_dt_float show ?thesis
    by (simp add: overflow_frame_def idle32_def huge_dt_def)
qed

end
